theory Spec2Isabelle
  imports Main "HOL-Library.Word" "HOL-Library.Sublist"
begin

unbundle bit_operations_syntax

section \<open>Outcomes and strings\<close>

text \<open>
  A Go function of the package returns an \<open>error\<close> value (a message) or panics at run
  time (an index out of range, a nil dereference). Both are values of \<open>failure\<close>; a
  result is \<open>failure + 'a\<close>, with \<open>Inl\<close> for the failure.
\<close>

datatype failure = Err string | Panic string

text \<open>\<open>errors.Wrap(err, msg)\<close>: the message, a colon, the wrapped error's message.\<close>

definition errors_Wrap :: "string \<Rightarrow> string \<Rightarrow> string" where
  "errors_Wrap e msg = msg @ '': '' @ e"

text \<open>
  \<open>strings.Split(s, "=")\<close> and \<open>strings.Split(s, "@")\<close>: the pieces of \<open>s\<close> between
  every occurrence of the one-character separator; a string without the separator is
  returned whole, as the only piece.
\<close>

fun strings_Split :: "char \<Rightarrow> string \<Rightarrow> string list" where
  "strings_Split sep [] = [[]]"
| "strings_Split sep (c # cs) =
     (if c = sep then [] # strings_Split sep cs
      else (case strings_Split sep cs of
              [] \<Rightarrow> [[c]]
            | p # ps \<Rightarrow> (c # p) # ps))"

text \<open>\<open>fmt.Sprintf("%d", n)\<close> for a length.\<close>

definition digit_char :: "nat \<Rightarrow> char" where
  "digit_char d = ''0123456789'' ! (d mod 10)"

fun decimal :: "nat \<Rightarrow> string" where
  "decimal n = (if n < 10 then [digit_char n] else decimal (n div 10) @ [digit_char (n mod 10)])"

declare decimal.simps [simp del]

text \<open>\<open>fmt.Sprintf("%x", bytes)\<close> and \<open>hex.EncodeToString\<close>: two lower-case digits a byte.\<close>

definition hex_digit :: "8 word \<Rightarrow> char" where
  "hex_digit d = ''0123456789abcdef'' ! unat (d AND 15)"

definition hex_encode :: "8 word list \<Rightarrow> string" where
  "hex_encode bs = concat (map (\<lambda>b. [hex_digit (drop_bit 4 b), hex_digit b]) bs)"

text \<open>
  \<open>filepath.Join(dir, name)\<close> for the two-element calls of the package: empty elements
  are ignored, the others are joined by the separator. The normalisation that
  \<open>filepath.Clean\<close> adds (\<open>..\<close>, \<open>.\<close>, doubled separators) is not modelled.
\<close>

definition filepath_Join :: "string \<Rightarrow> string \<Rightarrow> string" where
  "filepath_Join dir name =
     (if dir = [] then name else if name = [] then dir else dir @ ''/'' @ name)"

text \<open>
  \<open>filepath.Dir(path)\<close>: the path up to its last separator; \<open>.\<close> when it has none, the
  root when nothing stands before it.
\<close>

definition filepath_Dir :: "string \<Rightarrow> string" where
  "filepath_Dir path =
     (if CHR ''/'' \<notin> set path then ''.''
      else if rev (tl (dropWhile (\<lambda>c. c \<noteq> CHR ''/'') (rev path))) = [] then ''/''
      else rev (tl (dropWhile (\<lambda>c. c \<noteq> CHR ''/'') (rev path))))"

text \<open>Whether an error message names a string: the string occurs in it.\<close>

fun names_str :: "string \<Rightarrow> string \<Rightarrow> bool" where
  "names_str [] s = (s = [])"
| "names_str (c # cs) s = (prefix s (c # cs) \<or> names_str cs s)"

section \<open>Image configuration, shared by both backends\<close>

text \<open>
  The fields of \<open>container.Config\<close> (local backend) and of \<open>v1.Config\<close> (remote
  backend) that the package reads and writes. A Go map read at a missing key gives the
  empty string.
\<close>

record config =
  Labels :: "string \<rightharpoonup> string"
  Env :: "string list"
  Entrypoint :: "string list"
  Cmd :: "string list"


text \<open>
  The loop of \<open>Env\<close> in both backends:
  \<^verbatim>\<open>
  for _, envVar := range cfg.Env {
      parts := strings.Split(envVar, "=")
      if parts[0] == key { return parts[1], nil }
  }
  return "", nil
  \<close>
  \<open>parts[1]\<close> is read without a length check and panics on a one-piece entry.
\<close>

fun env_lookup :: "string list \<Rightarrow> string \<Rightarrow> failure + string" where
  "env_lookup [] key = Inr []"
| "env_lookup (envVar # rest) key =
     (case strings_Split CHR ''='' envVar of
        [] \<Rightarrow> Inl (Panic ''index out of range [0] with length 0'')
      | p0 # ps \<Rightarrow>
          if p0 = key then
            (case ps of
               [] \<Rightarrow> Inl (Panic ''index out of range [1] with length 1'')
             | p1 # _ \<Rightarrow> Inr p1)
          else env_lookup rest key)"

text \<open>
  The loop of \<open>RemoteImage.SetEnv\<close>: the first entry whose first piece is the key is
  overwritten in place and the loop returns; \<open>None\<close> when the loop ends without a match.
\<close>

fun env_replace :: "string list \<Rightarrow> string \<Rightarrow> string \<Rightarrow> string list option" where
  "env_replace [] key val = None"
| "env_replace (e # rest) key val =
     (case strings_Split CHR ''='' e of
        [] \<Rightarrow> None
      | p0 # ps \<Rightarrow>
          if p0 = key then Some ((key @ ''='' @ val) # rest)
          else map_option (\<lambda>r. e # r) (env_replace rest key val))"

text \<open>The key of an entry as both loops parse it: what stands before the first \<open>=\<close>.\<close>

definition env_key :: "string \<Rightarrow> string" where
  "env_key e = takeWhile (\<lambda>c. c \<noteq> CHR ''='') e"

text \<open>The format \<open>'%s'\<close> of the package's error messages.\<close>

definition quoted :: "string \<Rightarrow> string" where
  "quoted s = [CHR 0x27] @ s @ [CHR 0x27]"

section \<open>Data model\<close>

subsection \<open>Local backend: what the daemon reports, and the image struct\<close>

record types_RootFS =
  Layers :: "string list"

text \<open>\<open>types.ImageInspect\<close>; \<open>Config\<close> is a pointer, \<open>None\<close> when nil.\<close>

record types_ImageInspect =
  ID :: string
  RepoDigests :: "string list"
  Created :: string
  Config :: "config option"
  RootFS :: types_RootFS

definition zero_ImageInspect :: types_ImageInspect where
  "zero_ImageInspect =
     \<lparr>ID = [], RepoDigests = [], Created = [], Config = None, RootFS = \<lparr>Layers = []\<rparr>\<rparr>"

text \<open>
  Both image structs have the fields \<open>RepoName\<close> and \<open>prevOnce\<close>; they are declared
  once, so that both records keep the source's names. \<open>prevOnce\<close> is the state of the
  \<open>sync.Once\<close>: \<open>True\<close> once \<open>Do\<close> has run its function.
\<close>

record image_fields =
  RepoName :: string
  prevOnce :: bool

record LocalImage = image_fields +
  Inspect :: types_ImageInspect
  layerPaths :: "string list"
  prevDir :: string
  prevMap :: "string \<rightharpoonup> string"
  easyAddLayers :: "string list"

subsection \<open>Remote backend: the registry library's image, and the image struct\<close>

text \<open>
  \<open>v1.Layer\<close> and \<open>v1.Image\<close> are interfaces of the registry library; their methods
  \<open>DiffID()\<close>, \<open>ConfigFile()\<close> and \<open>Layers()\<close> return a value or an error (\<open>Inl\<close>, the
  message). \<open>ConfigFile()\<close> may return a nil pointer (\<open>None\<close>).
\<close>

record v1_Layer =
  DiffID :: "string + string"
  blob :: string

record v1_ConfigFile =
  ConfigFile_Created :: string
  ConfigFile_Config :: config

record v1_Image =
  ConfigFile :: "string + v1_ConfigFile option"
  v1_Layers :: "string + v1_Layer list"

text \<open>\<open>Image\<close> is an interface value: \<open>None\<close> when nil.\<close>

record RemoteImage = image_fields +
  Image :: "v1_Image option"
  PrevLayers :: "v1_Layer list"

text \<open>The interface \<open>Image\<close>, with its two implementations.\<close>

datatype Image_iface = Local LocalImage | Remote RemoteImage

fun Name :: "Image_iface \<Rightarrow> string" where
  "Name (Local l) = RepoName l"
| "Name (Remote r) = RepoName r"

subsection \<open>The world of the local backend\<close>

text \<open>
  What \<open>ImageInspectWithRaw\<close> answers: the metadata, a not-found error
  (\<open>client.IsErrNotFound\<close>) or another error. With an error the metadata is the zero
  value.
\<close>

datatype inspect_result = Inspected types_ImageInspect | ErrNotFound string | ErrOther string

text \<open>
  A tar stream as \<open>tar.Reader.Next\<close> delivers it: headers with their content, possibly
  cut short by a read error; the end of the list is \<open>io.EOF\<close>.
\<close>

datatype tar_type = TypeDir | TypeReg | TypeSymlink | TypeOther nat

datatype tar_item = Entry tar_type string string string | ReadErr string

datatype os_call = MkdirAll | OpenFile | Copy | Symlink | Open | Stat | TarWrite

text \<open>The map \<open>imgConfig\<close> that \<open>configFile\<close> serialises.\<close>

record config_object =
  obj_os :: string
  obj_created :: string
  obj_config :: "config option"
  obj_rootfs_diff_ids :: "string list"
  obj_history :: nat

text \<open>
  Everything outside the package that the local backend calls:
  \<^item> the daemon: \<open>ImageInspectWithRaw\<close>, \<open>ImageSave\<close> (an error or the exported tar
    stream), \<open>ImageLoad\<close> (given the archive written to it, the error of the load if any
    and the images the daemon reports afterwards); \<open>ImageSave_log\<close> records the names
    \<open>ImageSave\<close> was called with, oldest first;
  \<^item> the file system: the regular files by path; \<open>os_fault\<close> is the error, if any, with
    which the operating system refuses a call on a path; \<open>TempDir\<close> is what
    \<open>ioutil.TempDir\<close> returns;
  \<^item> the clock, \<open>time.Now().Format(time.RFC3339)\<close>;
  \<^item> library functions: SHA-256, the JSON decoders and encoders at the types the
    package uses them at, and \<open>name.NewTag\<close> followed by \<open>String()\<close>.
  Directories and symbolic links are not tracked in \<open>files\<close>.
\<close>

record world =
  ImageInspectWithRaw :: "string \<Rightarrow> inspect_result"
  ImageSave :: "string \<Rightarrow> string + tar_item list"
  ImageLoad :: "(string \<times> string) list \<Rightarrow> string option \<times> (string \<Rightarrow> inspect_result)"
  ImageSave_log :: "string list"
  files :: "string \<rightharpoonup> string"
  os_fault :: "os_call \<Rightarrow> string \<Rightarrow> string option"
  TempDir :: "string + string"
  now :: string
  sha256 :: "string \<Rightarrow> 8 word list"
  json_Decode_manifest :: "string \<Rightarrow> string + (string \<times> string list) list"
  json_Unmarshal_manifest :: "string \<Rightarrow> string + string list list"
  json_Decode_details :: "string \<Rightarrow> string + string list"
  json_Marshal_config :: "config_object \<Rightarrow> string + string"
  json_Marshal_manifest :: "string \<Rightarrow> string \<Rightarrow> string list \<Rightarrow> string + string"
  name_NewTag :: "string \<Rightarrow> string + string"

text \<open>\<open>os.Open\<close> followed by reading the file: its content, or the error.\<close>

definition os_Open :: "world \<Rightarrow> string \<Rightarrow> string + string" where
  "os_Open w path =
     (case os_fault w Open path of
        Some e \<Rightarrow> Inl e
      | None \<Rightarrow>
          (case files w path of
             None \<Rightarrow> Inl (''open '' @ path @ '': no such file or directory'')
           | Some content \<Rightarrow> Inr content))"

subsection \<open>The world of the remote backend\<close>

text \<open>
  \<open>referenceForRepoName\<close> (parsing the reference and resolving the keychain) fails or
  not; \<open>remote.Image\<close> gives the image of a name or an error. \<open>remote_Image_log\<close> records
  the names \<open>remote.Image\<close> was called with after construction, oldest first.
\<close>

record registry =
  referenceForRepoName :: "string \<Rightarrow> string option"
  remote_Image :: "string \<Rightarrow> string + v1_Image"
  remote_Image_log :: "string list"

section \<open>The local backend (local.go)\<close>

definition layers_of :: "LocalImage \<Rightarrow> string list" where
  "layers_of l = Layers (RootFS (Inspect l))"

definition set_layers :: "string list \<Rightarrow> LocalImage \<Rightarrow> LocalImage" where
  "set_layers ls l = l\<lparr>Inspect := (Inspect l)\<lparr>RootFS := \<lparr>Layers = ls\<rparr>\<rparr>\<rparr>"

definition EmptyLocalImage :: "string \<Rightarrow> LocalImage" where
  "EmptyLocalImage repoName =
     \<lparr>RepoName = repoName, prevOnce = False,
      Inspect = zero_ImageInspect
        \<lparr>Config := Some \<lparr>Labels = Map.empty, Env = [], Entrypoint = [], Cmd = []\<rparr>\<rparr>,
      layerPaths = [], prevDir = [], prevMap = Map.empty, easyAddLayers = []\<rparr>"

definition NewLocalImage :: "world \<Rightarrow> string \<Rightarrow> failure + LocalImage" where
  "NewLocalImage w repoName =
     (case ImageInspectWithRaw w repoName of
        ErrOther e \<Rightarrow> Inl (Err e)
      | r \<Rightarrow>
          (let inspect = (case r of Inspected i \<Rightarrow> i | _ \<Rightarrow> zero_ImageInspect) in
           Inr \<lparr>RepoName = repoName, prevOnce = False, Inspect = inspect,
                layerPaths = replicate (length (Layers (RootFS inspect))) [],
                prevDir = [], prevMap = Map.empty, easyAddLayers = []\<rparr>))"


definition Env_local :: "LocalImage \<Rightarrow> string \<Rightarrow> failure + string" where
  "Env_local l key =
     (case Config (Inspect l) of
        None \<Rightarrow> Inl (Err (''failed to get env var, image '' @ quoted (RepoName l) @ '' does not exist''))
      | Some c \<Rightarrow> env_lookup (Env c) key)"

text \<open>
  \<open>sameBase\<close>: after the length check, the loop compares the image's layers with the
  other image's, index by index. The last equation is behind the length check.
\<close>

fun sameBase_loop :: "string list \<Rightarrow> string list \<Rightarrow> bool" where
  "sameBase_loop [] prev = True"
| "sameBase_loop (baseLayer # rest) (p # prev) =
     (if baseLayer \<noteq> p then False else sameBase_loop rest prev)"
| "sameBase_loop (baseLayer # rest) [] = False"

definition sameBase :: "LocalImage \<Rightarrow> types_ImageInspect \<Rightarrow> bool" where
  "sameBase l prevInspect =
     (if length (Layers (RootFS prevInspect)) < length (layers_of l) then False
      else sameBase_loop (layers_of l) (Layers (RootFS prevInspect)))"

definition Rename :: "world \<Rightarrow> string \<Rightarrow> LocalImage \<Rightarrow> LocalImage" where
  "Rename w name l =
     (let l1 = l\<lparr>easyAddLayers := []\<rparr>;
          l2 = (case ImageInspectWithRaw w name of
                  Inspected prevInspect \<Rightarrow>
                    if sameBase l1 prevInspect
                    then l1\<lparr>easyAddLayers := drop (length (layers_of l1)) (Layers (RootFS prevInspect))\<rparr>
                    else l1
                | _ \<Rightarrow> l1)
      in l2\<lparr>RepoName := name\<rparr>)"

definition Found :: "LocalImage \<Rightarrow> bool" where
  "Found l = (Config (Inspect l) \<noteq> None)"

definition SetEnv_local :: "string \<Rightarrow> string \<Rightarrow> LocalImage \<Rightarrow> (failure + unit) \<times> LocalImage" where
  "SetEnv_local key val l =
     (case Config (Inspect l) of
        None \<Rightarrow> (Inl (Err (''failed to set env var, image '' @ quoted (RepoName l) @ '' does not exist'')), l)
      | Some c \<Rightarrow>
          (Inr (), l\<lparr>Inspect := (Inspect l)\<lparr>Config := Some (c\<lparr>Env := Env c @ [key @ ''='' @ val]\<rparr>)\<rparr>\<rparr>))"

text \<open>\<open>all[len(all)-1]\<close>: index \<open>-1\<close> on an empty slice, a run-time panic.\<close>

definition TopLayer_local :: "LocalImage \<Rightarrow> failure + string" where
  "TopLayer_local l =
     (let all = layers_of l in
      if all = [] then Inl (Panic ''index out of range [-1]'')
      else Inr (all ! (length all - 1)))"

subsection \<open>Adding a layer\<close>

definition AddLayer :: "world \<Rightarrow> string \<Rightarrow> LocalImage \<Rightarrow> (failure + unit) \<times> LocalImage" where
  "AddLayer w path l =
     (case os_Open w path of
        Inl e \<Rightarrow> (Inl (Err (errors_Wrap e (''AddLayer: open layer: '' @ path))), l)
      | Inr content \<Rightarrow>
          (case os_fault w Copy path of
             Some e \<Rightarrow> (Inl (Err (errors_Wrap e (''AddLayer: calculate checksum: '' @ path))), l)
           | None \<Rightarrow>
               (let sha = hex_encode (sha256 w content) in
                (Inr (), (set_layers (layers_of l @ [''sha256:'' @ sha]) l)
                           \<lparr>layerPaths := layerPaths l @ [path], easyAddLayers := []\<rparr>))))"

subsection \<open>The previous image: export, unpack, index\<close>

text \<open>
  \<open>untar\<close>: one step for each header until \<open>io.EOF\<close>. A regular file is opened with
  \<open>O_CREATE|O_WRONLY\<close> (no truncation) and written from its start. \<open>MkdirAll\<close> of the
  parent is only called when the parent does not exist; \<open>os_fault\<close> gives its error, if it
  is called and fails.
\<close>

fun untar :: "tar_item list \<Rightarrow> string \<Rightarrow> world \<Rightarrow> failure option \<times> world" where
  "untar [] dest w = (None, w)"
| "untar (ReadErr e # rest) dest w = (Some (Err e), w)"
| "untar (Entry ty name linkname content # rest) dest w =
     (let path = filepath_Join dest name in
      case ty of
        TypeDir \<Rightarrow>
          (case os_fault w MkdirAll path of
             Some e \<Rightarrow> (Some (Err e), w)
           | None \<Rightarrow> untar rest dest w)
      | TypeReg \<Rightarrow>
          (case os_fault w MkdirAll (filepath_Dir path) of
             Some e \<Rightarrow> (Some (Err e), w)
           | None \<Rightarrow>
               (case os_fault w OpenFile path of
                  Some e \<Rightarrow> (Some (Err e), w)
                | None \<Rightarrow>
                    (case os_fault w Copy path of
                       Some e \<Rightarrow> (Some (Err e), w)
                     | None \<Rightarrow>
                         (let old = (case files w path of None \<Rightarrow> [] | Some c \<Rightarrow> c);
                              new = content @ drop (length content) old
                          in untar rest dest (w\<lparr>files := (files w)(path \<mapsto> new)\<rparr>)))))
      | TypeSymlink \<Rightarrow>
          (case os_fault w Symlink path of
             Some e \<Rightarrow> (Some (Err e), w)
           | None \<Rightarrow> untar rest dest w)
      | TypeOther n \<Rightarrow> (Some (Err (''unknown file type in tar '' @ decimal n)), w))"

text \<open>
  The function that \<open>prevDownload\<close> hands to \<open>prevOnce.Do\<close>; its result is \<open>outerErr\<close>.
  First the part after the archive is unpacked: \<open>manifest.json\<close> and the config it names
  are read, and the map from diff ID to layer file is built, a later duplicate diff ID
  overwriting an earlier one.
\<close>

definition prevDownload_index :: "world \<Rightarrow> string \<Rightarrow> failure + (string \<rightharpoonup> string)" where
  "prevDownload_index w dir =
     (case os_Open w (filepath_Join dir ''manifest.json'') of
        Inl e \<Rightarrow> Inl (Err e)
      | Inr mf \<Rightarrow>
          (case json_Decode_manifest w mf of
             Inl e \<Rightarrow> Inl (Err e)
           | Inr manifest \<Rightarrow>
               if length manifest \<noteq> 1
               then Inl (Err (''manifest.json had unexpected number of entries: ''
                              @ decimal (length manifest)))
               else
                 (case os_Open w (filepath_Join dir (fst (hd manifest))) of
                    Inl e \<Rightarrow> Inl (Err e)
                  | Inr df \<Rightarrow>
                      (case json_Decode_details w df of
                         Inl e \<Rightarrow> Inl (Err e)
                       | Inr diffIDs \<Rightarrow>
                           if length (snd (hd manifest)) \<noteq> length diffIDs
                           then Inl (Err (''layers and diff IDs do not match, there are ''
                                          @ decimal (length (snd (hd manifest))) @ '' layers and ''
                                          @ decimal (length diffIDs) @ '' diffIDs''))
                           else Inr (fold (\<lambda>(diffID, layerID) m. m(diffID \<mapsto> layerID))
                                          (zip diffIDs (snd (hd manifest))) Map.empty)))))"

definition prevDownload_fetch :: "world \<Rightarrow> LocalImage \<Rightarrow> failure option \<times> LocalImage \<times> world" where
  "prevDownload_fetch w l =
     (let w1 = w\<lparr>ImageSave_log := ImageSave_log w @ [RepoName l]\<rparr> in
      case ImageSave w1 (RepoName l) of
        Inl e \<Rightarrow> (Some (Err e), l, w1)
      | Inr tarFile \<Rightarrow>
          (case TempDir w1 of
             Inl e \<Rightarrow> (Some (Err (errors_Wrap e ''local reuse-layer create temp dir'')),
                       l\<lparr>prevDir := []\<rparr>, w1)
           | Inr dir \<Rightarrow>
               (let l1 = l\<lparr>prevDir := dir\<rparr> in
                case untar tarFile dir w1 of
                  (Some e, w2) \<Rightarrow> (Some e, l1, w2)
                | (None, w2) \<Rightarrow>
                    (case prevDownload_index w2 dir of
                       Inl e \<Rightarrow> (Some e, l1, w2)
                     | Inr m \<Rightarrow> (None, l1\<lparr>prevMap := m\<rparr>, w2)))))"

text \<open>
  \<open>prevDownload\<close>: \<open>outerErr\<close> is a variable of the call; \<open>prevOnce.Do\<close> runs the function
  the first time only, and a later call returns the \<open>outerErr\<close> it has just declared.
\<close>

definition prevDownload :: "world \<Rightarrow> LocalImage \<Rightarrow> failure option \<times> LocalImage \<times> world" where
  "prevDownload w l =
     (if prevOnce l then (None, l, w)
      else (case prevDownload_fetch w l of
              (outerErr, l1, w1) \<Rightarrow> (outerErr, l1\<lparr>prevOnce := True\<rparr>, w1)))"

definition GetLayer :: "world \<Rightarrow> string \<Rightarrow> LocalImage \<Rightarrow> (failure + string) \<times> LocalImage \<times> world" where
  "GetLayer w sha l =
     (case prevDownload w l of
        (Some e, l1, w1) \<Rightarrow> (Inl e, l1, w1)
      | (None, l1, w1) \<Rightarrow>
          (case prevMap l1 sha of
             None \<Rightarrow> (Inl (Err (''image '' @ quoted (RepoName l1)
                                 @ '' does not contain layer with diff ID '' @ quoted sha)), l1, w1)
           | Some layerID \<Rightarrow>
               (case os_Open w1 (filepath_Join (prevDir l1) layerID) of
                  Inl e \<Rightarrow> (Inl (Err e), l1, w1)
                | Inr content \<Rightarrow> (Inr content, l1, w1))))"

definition ReuseLayer :: "world \<Rightarrow> string \<Rightarrow> LocalImage \<Rightarrow> (failure + unit) \<times> LocalImage \<times> world" where
  "ReuseLayer w sha l =
     (if length (easyAddLayers l) > 0 \<and> hd (easyAddLayers l) = sha
      then (Inr (), (set_layers (layers_of l @ [sha]) l)
                      \<lparr>layerPaths := layerPaths l @ [[]], easyAddLayers := tl (easyAddLayers l)\<rparr>, w)
      else
        (case prevDownload w l of
           (Some e, l1, w1) \<Rightarrow> (Inl e, l1, w1)
         | (None, l1, w1) \<Rightarrow>
             (case prevMap l1 sha of
                None \<Rightarrow> (Inl (Err (''SHA '' @ sha @ '' was not found in '' @ RepoName l1)), l1, w1)
              | Some reuseLayer \<Rightarrow>
                  (case AddLayer w1 (filepath_Join (prevDir l1) reuseLayer) l1 of
                     (r, l2) \<Rightarrow> (r, l2, w1)))))"

subsection \<open>Rebase\<close>

text \<open>The first loop of \<open>Rebase\<close>: the first index at which the diff ID stands.\<close>

fun index_of :: "string list \<Rightarrow> string \<Rightarrow> nat option" where
  "index_of [] x = None"
| "index_of (diffID # rest) x =
     (if diffID = x then Some 0 else map_option Suc (index_of rest x))"

text \<open>The last loop of \<open>Rebase\<close>: \<open>AddLayer\<close> on each file, stopping at the first error.\<close>

fun Rebase_add :: "world \<Rightarrow> string list \<Rightarrow> LocalImage \<Rightarrow> (failure + unit) \<times> LocalImage" where
  "Rebase_add w [] l = (Inr (), l)"
| "Rebase_add w (filename # rest) l =
     (case AddLayer w (filepath_Join (prevDir l) filename) l of
        (Inl e, l1) \<Rightarrow> (Inl e, l1)
      | (Inr u, l1) \<Rightarrow> Rebase_add w rest l1)"

text \<open>
  The part of \<open>Rebase\<close> after \<open>prevDownload\<close>: \<open>manifest.json\<close> is read again, and the
  last \<open>keepLayers\<close> files of its one entry are added. The slice expression panics when
  the entry has fewer layers than that.
\<close>

definition Rebase_keep :: "world \<Rightarrow> nat \<Rightarrow> LocalImage \<Rightarrow> (failure + unit) \<times> LocalImage" where
  "Rebase_keep w keepLayers l =
     (case os_Open w (filepath_Join (prevDir l) ''manifest.json'') of
        Inl e \<Rightarrow> (Inl (Err e), l)
      | Inr b \<Rightarrow>
          (case json_Unmarshal_manifest w b of
             Inl e \<Rightarrow> (Inl (Err e), l)
           | Inr manifest \<Rightarrow>
               if length manifest \<noteq> 1
               then (Inl (Err (''expected 1 image received '' @ decimal (length manifest))), l)
               else if length (hd manifest) < keepLayers
               then (Inl (Panic ''slice bounds out of range''), l)
               else Rebase_add w (drop (length (hd manifest) - keepLayers) (hd manifest)) l))"

definition Rebase :: "world \<Rightarrow> string \<Rightarrow> Image_iface \<Rightarrow> LocalImage \<Rightarrow> (failure + unit) \<times> LocalImage \<times> world" where
  "Rebase w baseTopLayer newBase l =
     (case index_of (layers_of l) baseTopLayer of
        None \<Rightarrow> (Inl (Err (quoted baseTopLayer @ '' not found in '' @ quoted (RepoName l)
                            @ '' during rebase'')), l, w)
      | Some i \<Rightarrow>
          (let keepLayers = length (layers_of l) - i - 1 in
           case ImageInspectWithRaw w (Name newBase) of
             ErrNotFound e \<Rightarrow> (Inl (Err (errors_Wrap e ''analyze read previous image config'')), l, w)
           | ErrOther e \<Rightarrow> (Inl (Err (errors_Wrap e ''analyze read previous image config'')), l, w)
           | Inspected newBaseInspect \<Rightarrow>
               (let l1 = (set_layers (Layers (RootFS newBaseInspect)) l)
                           \<lparr>layerPaths := replicate (length (Layers (RootFS newBaseInspect))) []\<rparr> in
                case prevDownload w l1 of
                  (Some e, l2, w2) \<Rightarrow> (Inl e, l2, w2)
                | (None, l2, w2) \<Rightarrow>
                    (case Rebase_keep w2 keepLayers l2 of (r, l3) \<Rightarrow> (r, l3, w2)))))"

subsection \<open>Save\<close>

text \<open>\<open>configFile\<close>: the map \<open>imgConfig\<close>, then \<open>json.Marshal\<close> of it.\<close>

definition imgConfig :: "world \<Rightarrow> LocalImage \<Rightarrow> config_object" where
  "imgConfig w l =
     \<lparr>obj_os = ''linux'', obj_created = now w, obj_config = Config (Inspect l),
      obj_rootfs_diff_ids = layers_of l, obj_history = length (layers_of l)\<rparr>"

definition configFile :: "world \<Rightarrow> LocalImage \<Rightarrow> string + string" where
  "configFile w l = json_Marshal_config w (imgConfig w l)"

definition addTextToTar :: "world \<Rightarrow> (string \<times> string) list \<Rightarrow> string \<Rightarrow> string \<Rightarrow> failure + (string \<times> string) list" where
  "addTextToTar w tw name contents =
     (case os_fault w TarWrite name of
        Some e \<Rightarrow> Inl (Err e)
      | None \<Rightarrow> Inr (tw @ [(name, contents)]))"

definition addFileToTar :: "world \<Rightarrow> (string \<times> string) list \<Rightarrow> string \<Rightarrow> string \<Rightarrow> string \<Rightarrow> failure + (string \<times> string) list" where
  "addFileToTar w tw name path contents =
     (case os_fault w Stat path of
        Some e \<Rightarrow> Inl (Err e)
      | None \<Rightarrow>
          (case os_fault w TarWrite name of
             Some e \<Rightarrow> Inl (Err e)
           | None \<Rightarrow>
               (case os_fault w Copy path of
                  Some e \<Rightarrow> Inl (Err e)
                | None \<Rightarrow> Inr (tw @ [(name, contents)]))))"

text \<open>
  The loop of \<open>Save\<close> over \<open>layerPaths\<close>: an empty path gives an empty entry of the
  manifest's list, another path a tar entry named after the hash of the path.
\<close>

fun Save_layers :: "world \<Rightarrow> string list \<Rightarrow> (string \<times> string) list \<Rightarrow> string list \<Rightarrow> failure + ((string \<times> string) list \<times> string list)" where
  "Save_layers w [] tw acc = Inr (tw, acc)"
| "Save_layers w (path # rest) tw acc =
     (if path = [] then Save_layers w rest tw (acc @ [[]])
      else
        (let layerName = ''/'' @ hex_encode (sha256 w path) @ ''.tar'' in
         case os_Open w path of
           Inl e \<Rightarrow> Inl (Err e)
         | Inr f \<Rightarrow>
             (case addFileToTar w tw layerName path f of
                Inl e \<Rightarrow> Inl e
              | Inr tw1 \<Rightarrow> Save_layers w rest tw1 (acc @ [layerName]))))"

definition RemoveAll :: "string \<Rightarrow> (string \<rightharpoonup> string) \<Rightarrow> (string \<rightharpoonup> string)" where
  "RemoveAll dir fs = (\<lambda>p. if p = dir \<or> prefix (dir @ ''/'') p then None else fs p)"

text \<open>
  The archive that \<open>Save\<close> writes into the pipe: the config named by its hash, the layer
  files, the manifest. The result is the image identifier, the entries and the error of
  \<open>json.Marshal\<close> or of a write, if any.
\<close>

definition Save_archive :: "world \<Rightarrow> string \<Rightarrow> LocalImage \<Rightarrow> failure + (string \<times> (string \<times> string) list)" where
  "Save_archive w repoName l =
     (case configFile w l of
        Inl e \<Rightarrow> Inl (Err (errors_Wrap e ''generate config file''))
      | Inr cf \<Rightarrow>
          (let imgID = hex_encode (sha256 w cf) in
           case addTextToTar w [] (imgID @ ''.json'') cf of
             Inl e \<Rightarrow> Inl e
           | Inr tw1 \<Rightarrow>
               (case Save_layers w (layerPaths l) tw1 [] of
                  Inl e \<Rightarrow> Inl e
                | Inr (tw2, names) \<Rightarrow>
                    (case json_Marshal_manifest w (imgID @ ''.json'') repoName names of
                       Inl e \<Rightarrow> Inl (Err e)
                     | Inr manifest \<Rightarrow>
                         (case addTextToTar w tw2 ''manifest.json'' manifest of
                            Inl e \<Rightarrow> Inl e
                          | Inr tw3 \<Rightarrow> Inr (imgID, tw3))))))"

text \<open>
  \<open>Save\<close>. The daemon reads the pipe while the archive is written; here the archive is
  handed to \<open>ImageLoad\<close> whole, and an early return leaves the daemon as it was. The
  error of the load is overwritten by the result of the inspection that follows, as in
  the source. With a temporary directory at hand, it is removed and \<open>prevOnce\<close> is
  replaced by a new \<open>sync.Once\<close>.
\<close>

definition Save :: "world \<Rightarrow> LocalImage \<Rightarrow> (failure + string) \<times> LocalImage \<times> world" where
  "Save w l =
     (case name_NewTag w (RepoName l) of
        Inl e \<Rightarrow> (Inl (Err e), l, w)
      | Inr repoName \<Rightarrow>
          (case Save_archive w repoName l of
             Inl e \<Rightarrow> (Inl e, l, w)
           | Inr (imgID, tw) \<Rightarrow>
               (let w1 = w\<lparr>ImageInspectWithRaw := snd (ImageLoad w tw)\<rparr>;
                    l1 = (if prevDir l \<noteq> []
                          then l\<lparr>prevDir := [], prevMap := Map.empty, prevOnce := False\<rparr>
                          else l);
                    w2 = (if prevDir l \<noteq> []
                          then w1\<lparr>files := RemoveAll (prevDir l) (files w1)\<rparr>
                          else w1)
                in case ImageInspectWithRaw w2 imgID of
                     ErrNotFound e \<Rightarrow> (Inl (Err (''save image '' @ quoted (RepoName l1))), l1, w2)
                   | ErrOther e \<Rightarrow> (Inl (Err e), l1, w2)
                   | Inspected i \<Rightarrow> (Inr imgID, l1, w2))))"

section \<open>The remote backend (remote.go)\<close>

subsection \<open>The registry library's image composition\<close>

text \<open>
  Modelled from the spec: \<open>mutate.Config\<close>, \<open>mutate.AppendLayers\<close> and \<open>mutate.Rebase\<close>
  belong to the registry library, whose source is not part of the repository. The spec
  lists them as the consumed capability \<open>composeUnderNewBase(subImage, newBase)\<close> and
  describes the composition in section 4.3: the base portion of the current image is
  replaced by the new base, the layers above it are kept. \<open>mutate.Config\<close> gives the
  image with the new config, \<open>mutate.AppendLayers\<close> the image with the layer appended;
  each returns the error of a method of its arguments that fails. The texts of the
  library's own errors are placeholders.
\<close>

definition mutate_Config :: "v1_Image \<Rightarrow> config \<Rightarrow> failure + v1_Image" where
  "mutate_Config base cfg =
     (case ConfigFile base of
        Inl e \<Rightarrow> Inl (Err e)
      | Inr None \<Rightarrow> Inl (Panic ''nil pointer dereference'')
      | Inr (Some cf) \<Rightarrow> Inr (base\<lparr>ConfigFile := Inr (Some (cf\<lparr>ConfigFile_Config := cfg\<rparr>))\<rparr>))"

definition mutate_AppendLayers :: "v1_Image \<Rightarrow> v1_Layer \<Rightarrow> failure + v1_Image" where
  "mutate_AppendLayers base layer =
     (case v1_Layers base of
        Inl e \<Rightarrow> Inl (Err e)
      | Inr ls \<Rightarrow>
          (case DiffID layer of
             Inl e \<Rightarrow> Inl (Err e)
           | Inr d \<Rightarrow> Inr (base\<lparr>v1_Layers := Inr (ls @ [layer])\<rparr>)))"

definition mutate_Rebase :: "v1_Image \<Rightarrow> failure + v1_Layer list \<Rightarrow> v1_Image \<Rightarrow> failure + v1_Image" where
  "mutate_Rebase orig oldBase_Layers newBase =
     (case v1_Layers orig of
        Inl e \<Rightarrow> Inl (Err e)
      | Inr origLayers \<Rightarrow>
          (case oldBase_Layers of
             Inl e \<Rightarrow> Inl e
           | Inr oldBaseLayers \<Rightarrow>
               if take (length oldBaseLayers) origLayers \<noteq> oldBaseLayers
               then Inl (Err ''image is not based on the old base'')
               else
                 (case v1_Layers newBase of
                    Inl e \<Rightarrow> Inl (Err e)
                  | Inr newBaseLayers \<Rightarrow>
                      Inr (orig\<lparr>v1_Layers :=
                             Inr (newBaseLayers @ drop (length oldBaseLayers) origLayers)\<rparr>))))"

subsection \<open>The image's operations\<close>

definition newV1Image :: "registry \<Rightarrow> string \<Rightarrow> (failure + v1_Image) \<times> registry" where
  "newV1Image R repoName =
     (case referenceForRepoName R repoName of
        Some e \<Rightarrow> (Inl (Err e), R)
      | None \<Rightarrow>
          (let R1 = R\<lparr>remote_Image_log := remote_Image_log R @ [repoName]\<rparr> in
           case remote_Image R1 repoName of
             Inl e \<Rightarrow> (Inl (Err (''connect to repo store '' @ quoted repoName @ '': '' @ e)), R1)
           | Inr v1img \<Rightarrow> (Inr v1img, R1)))"

definition NewRemoteImage :: "registry \<Rightarrow> string \<Rightarrow> (failure + RemoteImage) \<times> registry" where
  "NewRemoteImage R repoName =
     (case newV1Image R repoName of
        (Inl e, R1) \<Rightarrow> (Inl e, R1)
      | (Inr v1img, R1) \<Rightarrow>
          (Inr \<lparr>RepoName = repoName, prevOnce = False, Image = Some v1img, PrevLayers = []\<rparr>, R1))"


definition Env_remote :: "RemoteImage \<Rightarrow> string \<Rightarrow> failure + string" where
  "Env_remote r key =
     (case Image r of
        None \<Rightarrow> Inl (Panic ''nil pointer dereference'')
      | Some v1img \<Rightarrow>
          (case ConfigFile v1img of
             Inr (Some cfg) \<Rightarrow> env_lookup (Env (ConfigFile_Config cfg)) key
           | _ \<Rightarrow> Inl (Err (''failed to get env var, image '' @ quoted (RepoName r) @ '' does not exist''))))"

text \<open>
  \<open>r.Image, err = mutate.Config(r.Image, config)\<close> assigns the image also when the
  library returns an error: the image is nil then.
\<close>

definition assign_Image :: "RemoteImage \<Rightarrow> failure + v1_Image \<Rightarrow> (failure + unit) \<times> RemoteImage" where
  "assign_Image r res =
     (case res of
        Inl e \<Rightarrow> (Inl e, r\<lparr>Image := None\<rparr>)
      | Inr v1img \<Rightarrow> (Inr (), r\<lparr>Image := Some v1img\<rparr>))"

definition SetEnv_remote :: "string \<Rightarrow> string \<Rightarrow> RemoteImage \<Rightarrow> (failure + unit) \<times> RemoteImage" where
  "SetEnv_remote key val r =
     (case Image r of
        None \<Rightarrow> (Inl (Panic ''nil pointer dereference''), r)
      | Some v1img \<Rightarrow>
          (case ConfigFile v1img of
             Inl e \<Rightarrow> (Inl (Err e), r)
           | Inr None \<Rightarrow> (Inl (Panic ''nil pointer dereference''), r)
           | Inr (Some cf) \<Rightarrow>
               (let config = ConfigFile_Config cf in
                case env_replace (Env config) key val of
                  Some env \<Rightarrow> assign_Image r (mutate_Config v1img (config\<lparr>Env := env\<rparr>))
                | None \<Rightarrow>
                    assign_Image r
                      (mutate_Config v1img (config\<lparr>Env := Env config @ [key @ ''='' @ val]\<rparr>)))))"

definition TopLayer_remote :: "RemoteImage \<Rightarrow> failure + string" where
  "TopLayer_remote r =
     (case Image r of
        None \<Rightarrow> Inl (Panic ''nil pointer dereference'')
      | Some v1img \<Rightarrow>
          (case v1_Layers v1img of
             Inl e \<Rightarrow> Inl (Err e)
           | Inr all \<Rightarrow>
               if all = [] then Inl (Panic ''index out of range [-1]'')
               else (case DiffID (all ! (length all - 1)) of
                       Inl e \<Rightarrow> Inl (Err e)
                     | Inr hex \<Rightarrow> Inr hex)))"

fun findLayerWithSha :: "v1_Layer list \<Rightarrow> string \<Rightarrow> failure + v1_Layer" where
  "findLayerWithSha [] sha =
     Inl (Err (''previous image did not have layer with sha '' @ quoted sha))"
| "findLayerWithSha (layer # rest) sha =
     (case DiffID layer of
        Inl e \<Rightarrow> Inl (Err (errors_Wrap e ''get diff ID for previous image layer''))
      | Inr diffID \<Rightarrow> if sha = diffID then Inr layer else findLayerWithSha rest sha)"

text \<open>The function that \<open>ReuseLayer\<close> hands to \<open>prevOnce.Do\<close>; its result is \<open>outerErr\<close>.\<close>

definition ReuseLayer_fetch :: "registry \<Rightarrow> RemoteImage \<Rightarrow> failure option \<times> RemoteImage \<times> registry" where
  "ReuseLayer_fetch R r =
     (case newV1Image R (RepoName r) of
        (Inl e, R1) \<Rightarrow> (Some e, r, R1)
      | (Inr prevImage, R1) \<Rightarrow>
          (case v1_Layers prevImage of
             Inl e \<Rightarrow> (Some (Err (''failed to get layers for previous image with repo name ''
                                  @ quoted (RepoName r) @ '': '' @ e)), r\<lparr>PrevLayers := []\<rparr>, R1)
           | Inr ls \<Rightarrow> (None, r\<lparr>PrevLayers := ls\<rparr>, R1)))"

text \<open>
  The start of \<open>ReuseLayer\<close>: \<open>outerErr\<close> is declared, and \<open>prevOnce.Do\<close> runs the
  function the first time only.
\<close>

definition ReuseLayer_once :: "registry \<Rightarrow> RemoteImage \<Rightarrow> failure option \<times> RemoteImage \<times> registry" where
  "ReuseLayer_once R r =
     (if prevOnce r then (None, r, R)
      else (case ReuseLayer_fetch R r of
              (outerErr, r1, R1) \<Rightarrow> (outerErr, r1\<lparr>prevOnce := True\<rparr>, R1)))"

definition ReuseLayer_remote :: "registry \<Rightarrow> string \<Rightarrow> RemoteImage \<Rightarrow> (failure + unit) \<times> RemoteImage \<times> registry" where
  "ReuseLayer_remote R sha r =
     (case ReuseLayer_once R r of
        (Some outerErr, r1, R1) \<Rightarrow> (Inl outerErr, r1, R1)
      | (None, r1, R1) \<Rightarrow>
          (case findLayerWithSha (PrevLayers r1) sha of
             Inl e \<Rightarrow> (Inl e, r1, R1)
           | Inr layer \<Rightarrow>
               (case Image r1 of
                  None \<Rightarrow> (Inl (Panic ''nil pointer dereference''), r1, R1)
                | Some v1img \<Rightarrow>
                    (case assign_Image r1 (mutate_AppendLayers v1img layer) of
                       (res, r2) \<Rightarrow> (res, r2, R1)))))"

subsection \<open>Rebase\<close>

record subImage =
  img :: v1_Image
  topSHA :: string

text \<open>The loop of \<open>subImage.Layers\<close>: the index of the first layer with the diff ID.\<close>

fun subImage_find :: "v1_Layer list \<Rightarrow> string \<Rightarrow> nat \<Rightarrow> failure + nat" where
  "subImage_find [] sha i = Inl (Err ''could not find base layer in image'')"
| "subImage_find (l # rest) sha i =
     (case DiffID l of
        Inl e \<Rightarrow> Inl (Err e)
      | Inr d \<Rightarrow> if d = sha then Inr i else subImage_find rest sha (Suc i))"

definition subImage_Layers :: "subImage \<Rightarrow> failure + v1_Layer list" where
  "subImage_Layers si =
     (case v1_Layers (img si) of
        Inl e \<Rightarrow> Inl (Err e)
      | Inr all \<Rightarrow>
          (case subImage_find all (topSHA si) 0 of
             Inl e \<Rightarrow> Inl e
           | Inr i \<Rightarrow> Inr (take (i + 1) all)))"

definition Rebase_remote :: "string \<Rightarrow> Image_iface \<Rightarrow> RemoteImage \<Rightarrow> (failure + unit) \<times> RemoteImage" where
  "Rebase_remote baseTopLayer newBase r =
     (case newBase of
        Local l \<Rightarrow> (Inl (Err ''expected new base to be a remote image''), r)
      | Remote newBaseRemote \<Rightarrow>
          (case (Image r, Image newBaseRemote) of
             (Some v1img, Some newImg) \<Rightarrow>
               (case mutate_Rebase v1img (subImage_Layers \<lparr>img = v1img, topSHA = baseTopLayer\<rparr>) newImg of
                  Inl (Err e) \<Rightarrow> (Inl (Err (errors_Wrap e ''rebase'')), r)
                | Inl (Panic e) \<Rightarrow> (Inl (Panic e), r)
                | Inr newImage \<Rightarrow> (Inr (), r\<lparr>Image := Some newImage\<rparr>))
           | _ \<Rightarrow> (Inl (Panic ''nil pointer dereference''), r)))"

section \<open>Derived notions\<close>

text \<open>A caller's sequence of \<open>ReuseLayer\<close> calls, stopping at the first failure.\<close>

fun ReuseLayer_seq :: "world \<Rightarrow> string list \<Rightarrow> LocalImage \<Rightarrow> (failure + unit) \<times> LocalImage \<times> world" where
  "ReuseLayer_seq w [] l = (Inr (), l, w)"
| "ReuseLayer_seq w (sha # rest) l =
     (case ReuseLayer w sha l of
        (Inl e, l1, w1) \<Rightarrow> (Inl e, l1, w1)
      | (Inr u, l1, w1) \<Rightarrow> ReuseLayer_seq w1 rest l1)"

text \<open>
  The diff ID that \<open>AddLayer\<close> computes for the file at a path; \<open>None\<close> when the file
  cannot be opened or read.
\<close>

definition layer_digest :: "world \<Rightarrow> string \<Rightarrow> string option" where
  "layer_digest w path =
     (case os_Open w path of
        Inl e \<Rightarrow> None
      | Inr content \<Rightarrow>
          (case os_fault w Copy path of
             Some e \<Rightarrow> None
           | None \<Rightarrow> Some (''sha256:'' @ hex_encode (sha256 w content))))"

text \<open>The name that \<open>Save\<close> gives the tar entry of a layer path; empty for an empty path.\<close>

definition layerName :: "world \<Rightarrow> string \<Rightarrow> string" where
  "layerName w path = (if path = [] then [] else ''/'' @ hex_encode (sha256 w path) @ ''.tar'')"

text \<open>
  The local images a caller can hold: constructed by \<open>EmptyLocalImage\<close> or
  \<open>NewLocalImage\<close>, then changed by the operations of the interface, in any world and
  whatever each call returned.
\<close>

inductive reachable :: "LocalImage \<Rightarrow> bool" where
  r_empty: "reachable (EmptyLocalImage n)"
| r_new: "NewLocalImage w n = Inr l \<Longrightarrow> reachable l"
| r_AddLayer: "reachable l \<Longrightarrow> AddLayer w p l = (res, l') \<Longrightarrow> reachable l'"
| r_ReuseLayer: "reachable l \<Longrightarrow> ReuseLayer w d l = (res, l', w') \<Longrightarrow> reachable l'"
| r_Rebase: "reachable l \<Longrightarrow> Rebase w t nb l = (res, l', w') \<Longrightarrow> reachable l'"
| r_GetLayer: "reachable l \<Longrightarrow> GetLayer w d l = (res', l', w') \<Longrightarrow> reachable l'"
| r_Rename: "reachable l \<Longrightarrow> reachable (Rename w n l)"
| r_SetEnv: "reachable l \<Longrightarrow> SetEnv_local k v l = (res, l') \<Longrightarrow> reachable l'"
| r_Save: "reachable l \<Longrightarrow> Save w l = (res', l', w') \<Longrightarrow> reachable l'"

text \<open>
  The same images, with the origin of each entry of the layers recorded beside them,
  in order: \<open>None\<close> for a layer carried by reference (reported by the daemon at
  construction or for the new base of \<open>Rebase\<close>, or taken from the hint of \<open>Rename\<close>),
  \<open>Some w\<close> for a layer that \<open>AddLayer\<close> read from a file, \<open>w\<close> being the world in which
  that call of \<open>AddLayer\<close> ran.
  \<^item> \<open>AddLayer w\<close> itself reads in \<open>w\<close>; it appends one entry, or none when it fails.
  \<^item> \<open>ReuseLayer\<close> appends the hinted diff ID by reference when the hint matches;
    otherwise it calls \<open>AddLayer\<close> in the world that \<open>prevDownload\<close> left, which is the
    world it returns.
  \<^item> \<open>Rebase\<close>, once it has found the split and inspected the new base, replaces the
    layers by the new base's and then calls \<open>AddLayer\<close> in the world that \<open>prevDownload\<close>
    left, which is the world it returns; before that point it changes nothing.
  \<^item> The other operations leave the layers as they are.
\<close>

inductive tracked :: "LocalImage \<Rightarrow> world option list \<Rightarrow> bool" where
  t_empty: "tracked (EmptyLocalImage n) []"
| t_new: "NewLocalImage w n = Inr l \<Longrightarrow> tracked l (replicate (length (layers_of l)) None)"
| t_AddLayer: "tracked l os \<Longrightarrow> AddLayer w p l = (res, l') \<Longrightarrow>
     tracked l' (os @ replicate (length (layers_of l') - length (layers_of l)) (Some w))"
| t_ReuseLayer: "tracked l os \<Longrightarrow> ReuseLayer w d l = (res, l', w') \<Longrightarrow>
     tracked l' (os @ replicate (length (layers_of l') - length (layers_of l))
                        (if length (easyAddLayers l) > 0 \<and> hd (easyAddLayers l) = d
                         then None else Some w'))"
| t_Rebase: "tracked l os \<Longrightarrow> Rebase w t nb l = (res, l', w') \<Longrightarrow>
     index_of (layers_of l) t = Some i \<Longrightarrow> ImageInspectWithRaw w (Name nb) = Inspected b \<Longrightarrow>
     tracked l' (replicate (length (Layers (RootFS b))) None
                 @ replicate (length (layers_of l') - length (Layers (RootFS b))) (Some w'))"
| t_Rebase_refused: "tracked l os \<Longrightarrow> Rebase w t nb l = (res, l', w') \<Longrightarrow>
     index_of (layers_of l) t = None \<or> (\<forall>b. ImageInspectWithRaw w (Name nb) \<noteq> Inspected b) \<Longrightarrow>
     tracked l' os"
| t_GetLayer: "tracked l os \<Longrightarrow> GetLayer w d l = (res', l', w') \<Longrightarrow> tracked l' os"
| t_Rename: "tracked l os \<Longrightarrow> tracked (Rename w n l) os"
| t_SetEnv: "tracked l os \<Longrightarrow> SetEnv_local k v l = (res, l') \<Longrightarrow> tracked l' os"
| t_Save: "tracked l os \<Longrightarrow> Save w l = (res', l', w') \<Longrightarrow> tracked l' os"

text \<open>
  The layer path \<open>p\<close> is the content path of the layer \<open>d\<close> of the given origin: empty
  for a layer carried by reference; for a layer read from a file, the path whose file
  had the diff ID \<open>d\<close> as its digest in the world in which \<open>AddLayer\<close> read it.
\<close>

definition path_of_layer :: "world option \<Rightarrow> string \<Rightarrow> string \<Rightarrow> bool" where
  "path_of_layer origin p d =
     (case origin of None \<Rightarrow> p = [] | Some w \<Rightarrow> layer_digest w p = Some d)"

definition paths_ok :: "LocalImage \<Rightarrow> world option list \<Rightarrow> bool" where
  "paths_ok l os =
     (length (layerPaths l) = length (layers_of l) \<and> length os = length (layers_of l)
      \<and> (\<forall>i < length (layers_of l). path_of_layer (os ! i) (layerPaths l ! i) (layers_of l ! i)))"

section \<open>Example images, daemons and registries\<close>

text \<open>
  Concrete inputs for the closed theorems below: a config with one label, the local and
  the remote image of a given config and given layers.
\<close>

definition ex_config :: "string list \<Rightarrow> config" where
  "ex_config env = \<lparr>Labels = [''team'' \<mapsto> ''x''], Env = env, Entrypoint = [], Cmd = []\<rparr>"

definition ex_local :: "config option \<Rightarrow> string list \<Rightarrow> LocalImage" where
  "ex_local c ls =
     \<lparr>RepoName = ''app'', prevOnce = False,
      Inspect = zero_ImageInspect\<lparr>Config := c, RootFS := \<lparr>Layers = ls\<rparr>\<rparr>,
      layerPaths = replicate (length ls) [], prevDir = [], prevMap = Map.empty,
      easyAddLayers = []\<rparr>"

definition ex_layer :: "string \<Rightarrow> v1_Layer" where
  "ex_layer d = \<lparr>DiffID = Inr d, blob = d\<rparr>"

definition ex_remote :: "string + v1_ConfigFile option \<Rightarrow> string list \<Rightarrow> RemoteImage" where
  "ex_remote cf ds =
     \<lparr>RepoName = ''repo/app'', prevOnce = False,
      Image = Some \<lparr>ConfigFile = cf, v1_Layers = Inr (map ex_layer ds)\<rparr>, PrevLayers = []\<rparr>"

definition ex_cf :: "string list \<Rightarrow> string + v1_ConfigFile option" where
  "ex_cf env = Inr (Some \<lparr>ConfigFile_Created = ''2018-10-01T00:00:00Z'', ConfigFile_Config = ex_config env\<rparr>)"

text \<open>
  A small daemon and file system for the closed examples. The hash and the JSON codecs
  are finite tables standing in for the library functions: the exported archive of an
  image with the two layers \<open>sha256:11\<close> and \<open>sha256:22\<close> holds \<open>manifest.json\<close>, the
  config and one file a layer.
\<close>

definition ex_inspect :: "string list \<Rightarrow> types_ImageInspect" where
  "ex_inspect ls = zero_ImageInspect\<lparr>ID := ''img'', Config := Some (ex_config []), RootFS := \<lparr>Layers = ls\<rparr>\<rparr>"

definition ex_sha256 :: "string \<Rightarrow> 8 word list" where
  "ex_sha256 s =
     (if s = ''L1'' then [0x11] else if s = ''L2'' then [0x22]
      else if s = ''A1'' then [0xa1] else if s = ''A2'' then [0xa2]
      else if s = ''config'' then [0xcf] else [0x00])"

definition ex_manifest :: "string \<Rightarrow> string + (string \<times> string list) list" where
  "ex_manifest s =
     (if s = ''M'' then Inr [(''cfg.json'', [''l1/layer.tar'', ''l2/layer.tar''])]
      else Inl ''invalid character'')"

definition ex_details :: "string \<Rightarrow> string + string list" where
  "ex_details s = (if s = ''C'' then Inr [''sha256:11'', ''sha256:22''] else Inl ''invalid character'')"

definition ex_tar :: "tar_item list" where
  "ex_tar =
     [Entry TypeReg ''manifest.json'' [] ''M'', Entry TypeReg ''cfg.json'' [] ''C'',
      Entry TypeDir ''l1'' [] [], Entry TypeReg ''l1/layer.tar'' [] ''L1'',
      Entry TypeDir ''l2'' [] [], Entry TypeReg ''l2/layer.tar'' [] ''L2'']"

definition ex_images :: "string \<Rightarrow> inspect_result" where
  "ex_images n =
     (if n = ''app'' then Inspected (ex_inspect [''sha256:11'', ''sha256:22''])
      else if n = ''app:next'' then Inspected (ex_inspect [''sha256:11'', ''sha256:22'', ''sha256:33'', ''sha256:44''])
      else if n = ''base'' then Inspected (ex_inspect [''sha256:c1''])
      else ErrNotFound (''No such image: '' @ n))"

definition ex_world :: "(string \<Rightarrow> string + tar_item list) \<Rightarrow> world" where
  "ex_world exports =
     \<lparr>ImageInspectWithRaw = ex_images,
      ImageSave = exports,
      ImageLoad = (\<lambda>tw. (None, \<lambda>n. if n @ ''.json'' \<in> fst ` set tw
                                     then Inspected (zero_ImageInspect\<lparr>ID := n\<rparr>)
                                     else ex_images n)),
      ImageSave_log = [],
      files = [''/work/a1.tar'' \<mapsto> ''A1'', ''/work/a2.tar'' \<mapsto> ''A2''],
      os_fault = (\<lambda>c p. None),
      TempDir = Inr ''/tmp/prev'',
      now = ''2018-10-01T00:00:00Z'',
      sha256 = ex_sha256,
      json_Decode_manifest = ex_manifest,
      json_Unmarshal_manifest = (\<lambda>s. map_sum id (map snd) (ex_manifest s)),
      json_Decode_details = ex_details,
      json_Marshal_config = (\<lambda>obj. Inr ''config''),
      json_Marshal_manifest = (\<lambda>c t ls. Inr ''manifest''),
      name_NewTag = (\<lambda>n. Inr (n @ '':latest''))\<rparr>"

text \<open>A daemon that exports the archive above for \<open>app\<close>, and one whose export fails.\<close>

definition ex_exports :: "string \<Rightarrow> string + tar_item list" where
  "ex_exports n = (if n = ''app'' then Inr ex_tar else Inl (''No such image: '' @ n))"

definition ex_no_exports :: "string \<Rightarrow> string + tar_item list" where
  "ex_no_exports n = Inl ''daemon is not running''"

text \<open>The image that \<open>NewLocalImage\<close> constructs for \<open>app\<close> from the daemon above.\<close>

definition ex_app :: LocalImage where
  "ex_app =
     \<lparr>RepoName = ''app'', prevOnce = False, Inspect = ex_inspect [''sha256:11'', ''sha256:22''],
      layerPaths = [[], []], prevDir = [], prevMap = Map.empty, easyAddLayers = []\<rparr>"

text \<open>A registry that holds \<open>repo/app\<close> with two layers, and one that cannot be reached.\<close>

definition ex_registry :: registry where
  "ex_registry =
     \<lparr>referenceForRepoName = (\<lambda>n. None),
      remote_Image = (\<lambda>n. if n = ''repo/app''
                           then Inr \<lparr>ConfigFile = ex_cf [],
                                     v1_Layers = Inr [ex_layer ''sha256:11'', ex_layer ''sha256:22'']\<rparr>
                           else Inl ''MANIFEST_UNKNOWN''),
      remote_Image_log = []\<rparr>"


text \<open>The example world after \<open>prevDownload\<close> has exported and unpacked \<open>app\<close>.\<close>

definition ex_world_unpacked :: world where
  "ex_world_unpacked = ex_world ex_exports
        \<lparr>ImageSave_log := [''app''],
         files := [''/work/a1.tar'' \<mapsto> ''A1'', ''/work/a2.tar'' \<mapsto> ''A2'',
                   ''/tmp/prev/manifest.json'' \<mapsto> ''M'', ''/tmp/prev/cfg.json'' \<mapsto> ''C'',
                   ''/tmp/prev/l1/layer.tar'' \<mapsto> ''L1'', ''/tmp/prev/l2/layer.tar'' \<mapsto> ''L2'']\<rparr>"










text \<open>
  The image that \<open>NewLocalImage\<close> constructs for \<open>base\<close>, and the image \<open>app\<close> after two
  layers were added to it in memory: the stack \<open>b1, b2, a1, a2\<close> of the spec's rebase
  example, of which the daemon holds \<open>b1, b2\<close>. \<open>ex_C\<close> rebases it at \<open>b2\<close> onto \<open>base\<close>.
\<close>

definition ex_base :: LocalImage where
  "ex_base =
     \<lparr>RepoName = ''base'', prevOnce = False, Inspect = ex_inspect [''sha256:c1''],
      layerPaths = [[]], prevDir = [], prevMap = Map.empty, easyAddLayers = []\<rparr>"

definition ex_app_a1_a2 :: LocalImage where
  "ex_app_a1_a2 =
     snd (AddLayer (ex_world ex_exports) ''/work/a2.tar''
       (snd (AddLayer (ex_world ex_exports) ''/work/a1.tar'' ex_app)))"

definition ex_C :: "(failure + unit) \<times> LocalImage \<times> world" where
  "ex_C = Rebase (ex_world ex_exports) ''sha256:22'' (Local ex_base) ex_app_a1_a2"

section \<open>Properties of the string functions and of the env loops\<close>

lemma strings_Split_not_Nil: "strings_Split sep s \<noteq> []"
  by (induction s) (auto split: list.splits)

lemma hd_strings_Split: "hd (strings_Split sep s) = takeWhile (\<lambda>c. c \<noteq> sep) s"
  by (induction s) (auto split: list.splits simp: strings_Split_not_Nil)

lemma strings_Split_whole: "sep \<notin> set s \<Longrightarrow> strings_Split sep s = [s]"
  by (induction s) auto

lemma strings_Split_at_sep:
  "sep \<notin> set k \<Longrightarrow> strings_Split sep (k @ sep # v) = k # strings_Split sep v"
  by (induction k) auto

lemma env_lookup_skip:
  "env_key e \<noteq> key \<Longrightarrow> env_lookup (e # rest) key = env_lookup rest key"
  using strings_Split_not_Nil [of "CHR ''=''" e] hd_strings_Split [of "CHR ''=''" e]
  by (auto simp: env_key_def split: list.splits)


lemma env_lookup_prefix:
  "\<forall>e \<in> set pre. env_key e \<noteq> key \<Longrightarrow> env_lookup (pre @ rest) key = env_lookup rest key"
proof (induction pre)
  case Nil
  then show ?case by simp
next
  case (Cons e pre)
  then show ?case by (simp add: env_lookup_skip del: env_lookup.simps(2))
qed

lemma env_lookup_bare:
  "CHR ''='' \<notin> set key \<Longrightarrow>
   env_lookup (key # rest) key = Inl (Panic ''index out of range [1] with length 1'')"
  by (simp add: strings_Split_whole)

lemma env_lookup_pair:
  "CHR ''='' \<notin> set key \<Longrightarrow>
   env_lookup ((key @ CHR ''='' # v) # rest) key = Inr (takeWhile (\<lambda>c. c \<noteq> CHR ''='') v)"
  using strings_Split_not_Nil [of "CHR ''=''" v] hd_strings_Split [of "CHR ''=''" v]
  by (auto simp: strings_Split_at_sep split: list.splits)


lemma env_replace_skip:
  "env_key e \<noteq> key \<Longrightarrow>
   env_replace (e # rest) key val = map_option (\<lambda>r. e # r) (env_replace rest key val)"
  using strings_Split_not_Nil [of "CHR ''=''" e] hd_strings_Split [of "CHR ''=''" e]
  by (auto simp: env_key_def split: list.splits)

lemma env_replace_hit:
  "env_key e = key \<Longrightarrow> env_replace (e # rest) key val = Some ((key @ ''='' @ val) # rest)"
  using strings_Split_not_Nil [of "CHR ''=''" e] hd_strings_Split [of "CHR ''=''" e]
  by (auto simp: env_key_def split: list.splits)

lemma env_replace_absent:
  "\<forall>e \<in> set env. env_key e \<noteq> key \<Longrightarrow> env_replace env key val = None"
proof (induction env)
  case Nil
  then show ?case by simp
next
  case (Cons e env)
  then show ?case by (simp add: env_replace_skip del: env_replace.simps(2))
qed

lemma env_replace_first:
  "\<forall>e \<in> set pre. env_key e \<noteq> key \<Longrightarrow> env_key e = key \<Longrightarrow>
   env_replace (pre @ e # post) key val = Some (pre @ (key @ ''='' @ val) # post)"
proof (induction pre)
  case Nil
  then show ?case by (simp add: env_replace_hit del: env_replace.simps(2))
next
  case (Cons p pre)
  then show ?case by (simp add: env_replace_skip del: env_replace.simps(2))
qed

section \<open>Properties of the local operations\<close>

lemma layers_of_set_layers [simp]: "layers_of (set_layers ls l) = ls"
  by (simp add: layers_of_def set_layers_def)

lemma set_layers_fields [simp]:
  "RepoName (set_layers ls l) = RepoName l"
  "prevOnce (set_layers ls l) = prevOnce l"
  "layerPaths (set_layers ls l) = layerPaths l"
  "prevDir (set_layers ls l) = prevDir l"
  "prevMap (set_layers ls l) = prevMap l"
  "easyAddLayers (set_layers ls l) = easyAddLayers l"
  "Config (Inspect (set_layers ls l)) = Config (Inspect l)"
  by (simp_all add: set_layers_def)

lemma layers_of_updates [simp]:
  "layers_of (l\<lparr>layerPaths := ps\<rparr>) = layers_of l"
  "layers_of (l\<lparr>easyAddLayers := es\<rparr>) = layers_of l"
  "layers_of (l\<lparr>prevOnce := b\<rparr>) = layers_of l"
  "layers_of (l\<lparr>prevDir := d\<rparr>) = layers_of l"
  "layers_of (l\<lparr>prevMap := m\<rparr>) = layers_of l"
  "layers_of (l\<lparr>RepoName := n\<rparr>) = layers_of l"
  by (simp_all add: layers_of_def)

lemma sameBase_loop_prefix: "sameBase_loop cur prev = prefix cur prev"
  by (induction cur prev rule: sameBase_loop.induct) auto

lemma sameBase_prefix: "sameBase l prevInspect = prefix (layers_of l) (Layers (RootFS prevInspect))"
  by (auto simp: sameBase_def sameBase_loop_prefix dest: prefix_length_le)

lemma Rename_hint:
  "ImageInspectWithRaw w name = Inspected prev \<Longrightarrow> prefix (layers_of l) (Layers (RootFS prev)) \<Longrightarrow>
   Rename w name l = l\<lparr>easyAddLayers := drop (length (layers_of l)) (Layers (RootFS prev)), RepoName := name\<rparr>"
  by (simp add: Rename_def sameBase_prefix Let_def)

lemma ReuseLayer_fast:
  "easyAddLayers l = d # rest \<Longrightarrow>
   ReuseLayer w d l =
     (Inr (), (set_layers (layers_of l @ [d]) l)\<lparr>layerPaths := layerPaths l @ [[]], easyAddLayers := rest\<rparr>, w)"
  by (simp add: ReuseLayer_def)

lemma ReuseLayer_seq_fast:
  "prefix ds (easyAddLayers l) \<Longrightarrow>
   ReuseLayer_seq w ds l =
     (Inr (), (set_layers (layers_of l @ ds) l)
                \<lparr>layerPaths := layerPaths l @ replicate (length ds) [],
                  easyAddLayers := drop (length ds) (easyAddLayers l)\<rparr>, w)"
proof (induction ds arbitrary: l)
  case Nil
  then show ?case by (simp add: set_layers_def layers_of_def)
next
  case (Cons d ds)
  obtain rest where e: "easyAddLayers l = d # rest" and p: "prefix ds rest"
    using Cons.prems by (cases "easyAddLayers l") auto
  let ?l1 = "(set_layers (layers_of l @ [d]) l)\<lparr>layerPaths := layerPaths l @ [[]], easyAddLayers := rest\<rparr>"
  have "ReuseLayer_seq w (d # ds) l = ReuseLayer_seq w ds ?l1"
    by (simp add: ReuseLayer_fast [OF e])
  also have "\<dots> = (Inr (), (set_layers (layers_of ?l1 @ ds) ?l1)
                \<lparr>layerPaths := layerPaths ?l1 @ replicate (length ds) [],
                  easyAddLayers := drop (length ds) (easyAddLayers ?l1)\<rparr>, w)"
    by (rule Cons.IH) (simp add: p)
  also have "\<dots> = (Inr (), (set_layers (layers_of l @ d # ds) l)
                \<lparr>layerPaths := layerPaths l @ replicate (length (d # ds)) [],
                  easyAddLayers := drop (length (d # ds)) (easyAddLayers l)\<rparr>, w)"
    by (simp add: e set_layers_def layers_of_def replicate_app_Cons_same)
  finally show ?case .
qed

lemma names_str_append: "names_str (a @ s @ b) s"
proof (induction a)
  case Nil
  show ?case
  proof (cases "s @ b")
    case Nil
    then show ?thesis by simp
  next
    case (Cons c cs)
    then have "prefix s (c # cs)" by (metis prefixI)
    with Cons show ?thesis by simp
  qed
next
  case (Cons c a)
  then show ?case by simp
qed

lemma names_str_end: "names_str (a @ s) s"
  using names_str_append [of a s "[]"] by simp

lemma untar_frame: "untar t dest w = (e, w') \<Longrightarrow> w' = w\<lparr>files := files w'\<rparr>"
proof (induction t dest w rule: untar.induct)
  case (1 dest w)
  then show ?case by simp
next
  case (2 e rest dest w)
  then show ?case by auto
next
  case (3 ty name linkname content rest dest w)
  then show ?case
    by (cases ty) (auto simp: Let_def split: option.splits)
qed

lemma prevDownload_fetch_frame:
  assumes "prevDownload_fetch w l = (e, l', w')"
  shows "RepoName l' = RepoName l \<and> prevOnce l' = prevOnce l \<and> Inspect l' = Inspect l
         \<and> layerPaths l' = layerPaths l \<and> easyAddLayers l' = easyAddLayers l"
    and "w' = w\<lparr>ImageSave_log := ImageSave_log w @ [RepoName l], files := files w'\<rparr>"
proof -
  let ?w1 = "w\<lparr>ImageSave_log := ImageSave_log w @ [RepoName l]\<rparr>"
  have u: "\<And>t d e2 w2. untar t d ?w1 = (e2, w2) \<Longrightarrow> w2 = ?w1\<lparr>files := files w2\<rparr>"
    by (rule untar_frame)
  show "RepoName l' = RepoName l \<and> prevOnce l' = prevOnce l \<and> Inspect l' = Inspect l
         \<and> layerPaths l' = layerPaths l \<and> easyAddLayers l' = easyAddLayers l"
    using assms
    by (auto simp: prevDownload_fetch_def Let_def split: sum.splits prod.splits option.splits)
  show "w' = w\<lparr>ImageSave_log := ImageSave_log w @ [RepoName l], files := files w'\<rparr>"
    using assms
    by (auto simp: prevDownload_fetch_def Let_def split: sum.splits prod.splits option.splits
        dest!: u)
qed

lemma prevDownload_frame:
  assumes "prevDownload w l = (e, l', w')"
  shows "RepoName l' = RepoName l \<and> prevOnce l' \<and> Inspect l' = Inspect l
         \<and> layerPaths l' = layerPaths l \<and> easyAddLayers l' = easyAddLayers l"
    and "prevOnce l \<Longrightarrow> w' = w \<and> l' = l \<and> e = None"
    and "\<not> prevOnce l \<Longrightarrow> w' = w\<lparr>ImageSave_log := ImageSave_log w @ [RepoName l], files := files w'\<rparr>"
proof -
  show "prevOnce l \<Longrightarrow> w' = w \<and> l' = l \<and> e = None"
    using assms by (simp add: prevDownload_def)
  show "\<not> prevOnce l \<Longrightarrow> w' = w\<lparr>ImageSave_log := ImageSave_log w @ [RepoName l], files := files w'\<rparr>"
    using assms prevDownload_fetch_frame(2) [of w l]
    by (auto simp: prevDownload_def split: prod.splits)
  show "RepoName l' = RepoName l \<and> prevOnce l' \<and> Inspect l' = Inspect l
         \<and> layerPaths l' = layerPaths l \<and> easyAddLayers l' = easyAddLayers l"
    using assms prevDownload_fetch_frame(1) [of w l]
    by (auto simp: prevDownload_def split: prod.splits if_splits)
qed

lemma prevDownload_layers:
  "prevDownload w l = (e, l', w') \<Longrightarrow> layers_of l' = layers_of l"
  using prevDownload_frame(1) [of w l e l' w'] by (simp add: layers_of_def)


lemma AddLayer_cases:
  assumes "AddLayer w p l = (res, l')"
  shows "(\<exists>e. res = Inl (Err e) \<and> l' = l \<and> layer_digest w p = None)
         \<or> (\<exists>d. res = Inr () \<and> layer_digest w p = Some d
                \<and> l' = (set_layers (layers_of l @ [d]) l)\<lparr>layerPaths := layerPaths l @ [p], easyAddLayers := []\<rparr>)"
  using assms
  by (auto simp: AddLayer_def layer_digest_def Let_def split: sum.splits option.splits)

lemma paths_ok_same:
  "paths_ok l os \<Longrightarrow> layerPaths l' = layerPaths l \<Longrightarrow> layers_of l' = layers_of l \<Longrightarrow> paths_ok l' os"
  by (simp add: paths_ok_def)

lemma paths_ok_append:
  assumes "paths_ok l os" and "path_of_layer origin p d"
    and "layerPaths l' = layerPaths l @ [p]" and "layers_of l' = layers_of l @ [d]"
  shows "paths_ok l' (os @ [origin])"
  using assms by (auto simp: paths_ok_def nth_append less_Suc_eq)

lemma paths_ok_rebuilt:
  assumes "layerPaths l' = replicate (length base) [] @ ps" and "layers_of l' = base @ ds"
    and "list_all2 (\<lambda>p d. layer_digest w p = Some d) ps ds"
  shows "paths_ok l' (replicate (length base) None
                      @ replicate (length (layers_of l') - length base) (Some w))"
proof -
  have len: "length ps = length ds" using assms(3) by (rule list_all2_lengthD)
  have nth: "\<And>j. j < length ds \<Longrightarrow> layer_digest w (ps ! j) = Some (ds ! j)"
    using assms(3) by (simp add: list_all2_conv_all_nth)
  show ?thesis
    using len nth by (auto simp: paths_ok_def assms(1,2) nth_append path_of_layer_def)
qed

lemma AddLayer_paths_ok:
  assumes "AddLayer w p l = (res, l')" and "paths_ok l os"
  shows "paths_ok l' (os @ replicate (length (layers_of l') - length (layers_of l)) (Some w))"
proof -
  from AddLayer_cases [OF assms(1)] show ?thesis
  proof (elim disjE exE conjE)
    fix e assume "l' = l"
    then show ?thesis using assms(2) by simp
  next
    fix d
    assume d: "layer_digest w p = Some d"
      and l': "l' = (set_layers (layers_of l @ [d]) l)\<lparr>layerPaths := layerPaths l @ [p], easyAddLayers := []\<rparr>"
    have "paths_ok l' (os @ [Some w])"
      using assms(2) by (rule paths_ok_append [where p = p and d = d])
        (simp_all add: path_of_layer_def d l')
    then show ?thesis by (simp add: l')
  qed
qed

lemma AddLayer_prevDir: "AddLayer w p l = (res, l') \<Longrightarrow> prevDir l' = prevDir l"
  by (auto dest!: AddLayer_cases)

lemma AddLayer_appends:
  assumes "AddLayer w p l = (res, l')"
  shows "\<exists>ps ds. layerPaths l' = layerPaths l @ ps \<and> layers_of l' = layers_of l @ ds
           \<and> list_all2 (\<lambda>p d. layer_digest w p = Some d) ps ds"
proof -
  from AddLayer_cases [OF assms] show ?thesis
  proof (elim disjE exE conjE)
    fix e assume "l' = l"
    then have "layerPaths l' = layerPaths l @ [] \<and> layers_of l' = layers_of l @ []
           \<and> list_all2 (\<lambda>p d. layer_digest w p = Some d) [] []" by simp
    then show ?thesis by blast
  next
    fix d
    assume d: "layer_digest w p = Some d"
      and l': "l' = (set_layers (layers_of l @ [d]) l)\<lparr>layerPaths := layerPaths l @ [p], easyAddLayers := []\<rparr>"
    have "layerPaths l' = layerPaths l @ [p] \<and> layers_of l' = layers_of l @ [d]
           \<and> list_all2 (\<lambda>p d. layer_digest w p = Some d) [p] [d]"
      by (simp add: l' d)
    then show ?thesis by blast
  qed
qed

lemma Rebase_add_appends:
  "Rebase_add w fs l = (res, l') \<Longrightarrow>
   \<exists>ps ds. layerPaths l' = layerPaths l @ ps \<and> layers_of l' = layers_of l @ ds
     \<and> list_all2 (\<lambda>p d. layer_digest w p = Some d) ps ds"
proof (induction fs arbitrary: l)
  case Nil
  then have "layerPaths l' = layerPaths l @ [] \<and> layers_of l' = layers_of l @ []
           \<and> list_all2 (\<lambda>p d. layer_digest w p = Some d) [] []" by simp
  then show ?case by blast
next
  case (Cons f fs)
  obtain r1 l1 where a: "AddLayer w (filepath_Join (prevDir l) f) l = (r1, l1)"
    by (cases "AddLayer w (filepath_Join (prevDir l) f) l")
  from AddLayer_appends [OF a] obtain ps1 ds1 where
    s1: "layerPaths l1 = layerPaths l @ ps1" "layers_of l1 = layers_of l @ ds1"
      "list_all2 (\<lambda>p d. layer_digest w p = Some d) ps1 ds1"
    by blast
  show ?case
  proof (cases r1)
    case (Inl e)
    with Cons.prems a have "l' = l1" by simp
    with s1 show ?thesis by blast
  next
    case (Inr u)
    with Cons.prems a have "Rebase_add w fs l1 = (res, l')" by simp
    from Cons.IH [OF this] obtain ps2 ds2 where
      s2: "layerPaths l' = layerPaths l1 @ ps2" "layers_of l' = layers_of l1 @ ds2"
        "list_all2 (\<lambda>p d. layer_digest w p = Some d) ps2 ds2"
      by blast
    have "layerPaths l' = layerPaths l @ (ps1 @ ps2) \<and> layers_of l' = layers_of l @ (ds1 @ ds2)
           \<and> list_all2 (\<lambda>p d. layer_digest w p = Some d) (ps1 @ ps2) (ds1 @ ds2)"
      using s1 s2 by (simp add: list_all2_appendI)
    then show ?thesis by blast
  qed
qed

lemma Rebase_keep_appends:
  assumes "Rebase_keep w k l = (res, l')"
  shows "\<exists>ps ds. layerPaths l' = layerPaths l @ ps \<and> layers_of l' = layers_of l @ ds
           \<and> list_all2 (\<lambda>p d. layer_digest w p = Some d) ps ds"
proof -
  have same: "l' = l \<Longrightarrow> ?thesis"
  proof -
    assume "l' = l"
    then have "layerPaths l' = layerPaths l @ [] \<and> layers_of l' = layers_of l @ []
           \<and> list_all2 (\<lambda>p d. layer_digest w p = Some d) [] []" by simp
    then show ?thesis by blast
  qed
  show ?thesis
    using assms same
    by (auto simp: Rebase_keep_def split: sum.splits if_splits dest: Rebase_add_appends)
qed

lemma prevDownload_paths_ok:
  "prevDownload w l = (e, l', w') \<Longrightarrow> paths_ok l os \<Longrightarrow> paths_ok l' os"
  using prevDownload_frame(1) [of w l e l' w'] prevDownload_layers [of w l e l' w']
  by (auto intro: paths_ok_same)

lemma ReuseLayer_paths_ok:
  assumes "ReuseLayer w d l = (res, l', w')" and "paths_ok l os"
  shows "paths_ok l' (os @ replicate (length (layers_of l') - length (layers_of l))
                              (if length (easyAddLayers l) > 0 \<and> hd (easyAddLayers l) = d
                               then None else Some w'))"
proof (cases "length (easyAddLayers l) > 0 \<and> hd (easyAddLayers l) = d")
  case True
  then have l': "l' = (set_layers (layers_of l @ [d]) l)\<lparr>layerPaths := layerPaths l @ [[]], easyAddLayers := tl (easyAddLayers l)\<rparr>"
    using assms(1) by (simp add: ReuseLayer_def)
  have "paths_ok l' (os @ [None])"
    using assms(2) by (rule paths_ok_append [where p = "[]" and d = d])
      (simp_all add: path_of_layer_def l')
  then show ?thesis using True by (simp add: l')
next
  case False
  obtain e l1 w1 where p: "prevDownload w l = (e, l1, w1)" by (cases "prevDownload w l")
  have ok1: "paths_ok l1 os" using prevDownload_paths_ok [OF p assms(2)] .
  have ls1: "layers_of l1 = layers_of l" using prevDownload_layers [OF p] .
  have rl: "ReuseLayer w d l =
     (case e of
        Some err \<Rightarrow> (Inl err, l1, w1)
      | None \<Rightarrow>
          (case prevMap l1 d of
             None \<Rightarrow> (Inl (Err (''SHA '' @ d @ '' was not found in '' @ RepoName l1)), l1, w1)
           | Some f \<Rightarrow> (case AddLayer w1 (filepath_Join (prevDir l1) f) l1 of (r, l2) \<Rightarrow> (r, l2, w1))))"
    using False p by (auto simp: ReuseLayer_def split: option.splits)
  note r = assms(1) [unfolded rl]
  show ?thesis
  proof (cases e)
    case (Some err)
    then have "l' = l1" using r by simp
    then show ?thesis using ok1 ls1 by simp
  next
    case None
    show ?thesis
    proof (cases "prevMap l1 d")
      case None2: None
      then have "l' = l1" using r None by simp
      then show ?thesis using ok1 ls1 by simp
    next
      case (Some f)
      obtain r2 l2 where a: "AddLayer w1 (filepath_Join (prevDir l1) f) l1 = (r2, l2)"
        by (cases "AddLayer w1 (filepath_Join (prevDir l1) f) l1")
      have "l' = l2" "w' = w1" using r None Some a by simp_all
      then show ?thesis using AddLayer_paths_ok [OF a ok1] ls1 False by auto
    qed
  qed
qed

lemma Rebase_refused:
  assumes "Rebase w t nb l = (res, l', w')"
    and "index_of (layers_of l) t = None \<or> (\<forall>b. ImageInspectWithRaw w (Name nb) \<noteq> Inspected b)"
  shows "l' = l"
  using assms
  by (cases "ImageInspectWithRaw w (Name nb)")
    (auto simp: Rebase_def Let_def split: option.splits)

lemma Rebase_paths_ok:
  assumes "Rebase w t nb l = (res, l', w')" and "index_of (layers_of l) t = Some i"
    and "ImageInspectWithRaw w (Name nb) = Inspected b"
  shows "paths_ok l' (replicate (length (Layers (RootFS b))) None
                      @ replicate (length (layers_of l') - length (Layers (RootFS b))) (Some w'))"
proof -
  let ?l1 = "(set_layers (Layers (RootFS b)) l)\<lparr>layerPaths := replicate (length (Layers (RootFS b))) []\<rparr>"
  obtain e l2 w2 where p: "prevDownload w ?l1 = (e, l2, w2)" by (cases "prevDownload w ?l1")
  have ps2: "layerPaths l2 = replicate (length (Layers (RootFS b))) []"
    using prevDownload_frame(1) [OF p] by simp
  have ls2: "layers_of l2 = Layers (RootFS b)"
    using prevDownload_layers [OF p] by simp
  have "\<exists>ps ds. layerPaths l' = replicate (length (Layers (RootFS b))) [] @ ps
          \<and> layers_of l' = Layers (RootFS b) @ ds
          \<and> list_all2 (\<lambda>p d. layer_digest w' p = Some d) ps ds"
  proof (cases e)
    case (Some err)
    then have "l' = l2" using assms p by (simp add: Rebase_def Let_def)
    then have "layerPaths l' = replicate (length (Layers (RootFS b))) [] @ []
          \<and> layers_of l' = Layers (RootFS b) @ []
          \<and> list_all2 (\<lambda>p d. layer_digest w' p = Some d) [] []"
      using ps2 ls2 by simp
    then show ?thesis by blast
  next
    case None
    obtain r3 l3 where k: "Rebase_keep w2 (length (layers_of l) - i - 1) l2 = (r3, l3)"
      by (cases "Rebase_keep w2 (length (layers_of l) - i - 1) l2")
    have "l' = l3" "w' = w2" using assms p None k by (simp_all add: Rebase_def Let_def)
    then show ?thesis using Rebase_keep_appends [OF k] ps2 ls2 by simp
  qed
  then obtain ps ds where
    "layerPaths l' = replicate (length (Layers (RootFS b))) [] @ ps"
    "layers_of l' = Layers (RootFS b) @ ds"
    "list_all2 (\<lambda>p d. layer_digest w' p = Some d) ps ds"
    by blast
  then show ?thesis by (rule paths_ok_rebuilt)
qed

lemma Save_image:
  assumes "Save w l = (res, l', w')"
  shows "l' = l \<or> l' = l\<lparr>prevDir := [], prevMap := Map.empty, prevOnce := False\<rparr>"
proof (cases "name_NewTag w (RepoName l)")
  case (Inl e)
  then show ?thesis using assms by (simp add: Save_def)
next
  case (Inr repoName)
  show ?thesis
  proof (cases "Save_archive w repoName l")
    case (Inl e)
    then show ?thesis using assms Inr by (simp add: Save_def)
  next
    case Inr2: (Inr a)
    obtain imgID tw where a: "a = (imgID, tw)" by (cases a)
    show ?thesis
      using assms Inr Inr2 a
      by (cases "prevDir l = []") (auto simp: Save_def Let_def split: inspect_result.splits)
  qed
qed

lemma tracked_paths_ok: "tracked l os \<Longrightarrow> paths_ok l os"
proof (induction rule: tracked.induct)
  case (t_empty n)
  then show ?case
    by (simp add: paths_ok_def EmptyLocalImage_def layers_of_def zero_ImageInspect_def)
next
  case (t_new w n l)
  then show ?case
    by (auto simp: NewLocalImage_def paths_ok_def layers_of_def Let_def path_of_layer_def
        split: inspect_result.splits)
next
  case (t_AddLayer l os w p res l')
  then show ?case by (auto dest: AddLayer_paths_ok)
next
  case (t_ReuseLayer l os w d res l' w')
  from ReuseLayer_paths_ok [OF t_ReuseLayer.hyps(2) t_ReuseLayer.IH] show ?case .
next
  case (t_Rebase l os w t nb res l' w' i b)
  from Rebase_paths_ok [OF t_Rebase.hyps(2,3,4)] show ?case .
next
  case (t_Rebase_refused l os w t nb res l' w')
  from Rebase_refused [OF t_Rebase_refused.hyps(2,3)] t_Rebase_refused.IH show ?case by simp
next
  case (t_GetLayer l os w d res' l' w')
  obtain e l1 w1 where p: "prevDownload w l = (e, l1, w1)" by (cases "prevDownload w l")
  have "paths_ok l1 os" using prevDownload_paths_ok [OF p t_GetLayer.IH] .
  then show ?case using t_GetLayer.hyps(2) p
    by (auto simp: GetLayer_def split: option.splits sum.splits)
next
  case (t_Rename l os w n)
  then show ?case
    by (auto simp: Rename_def Let_def paths_ok_def layers_of_def split: inspect_result.splits)
next
  case (t_SetEnv l os k v res l')
  then show ?case
    by (auto simp: SetEnv_local_def paths_ok_def layers_of_def split: option.splits)
next
  case (t_Save l os w res' l' w')
  then show ?case
    by (auto simp: paths_ok_def layers_of_def dest!: Save_image)
qed

lemma reachable_tracked: "reachable l \<Longrightarrow> \<exists>os. tracked l os"
proof (induction rule: reachable.induct)
  case (r_empty n)
  show ?case using t_empty by blast
next
  case (r_new w n l)
  then show ?case using t_new by blast
next
  case (r_AddLayer l w p res l')
  then show ?case using t_AddLayer by blast
next
  case (r_ReuseLayer l w d res l' w')
  then show ?case using t_ReuseLayer by blast
next
  case (r_Rebase l w t nb res l' w')
  then obtain os where os: "tracked l os" by blast
  show ?case
  proof (cases "index_of (layers_of l) t = None \<or> (\<forall>b. ImageInspectWithRaw w (Name nb) \<noteq> Inspected b)")
    case True
    from t_Rebase_refused [OF os r_Rebase.hyps(2) True] show ?thesis by blast
  next
    case False
    then obtain i b where "index_of (layers_of l) t = Some i"
      "ImageInspectWithRaw w (Name nb) = Inspected b" by auto
    from t_Rebase [OF os r_Rebase.hyps(2) this] show ?thesis by blast
  qed
next
  case (r_GetLayer l w d res' l' w')
  then show ?case using t_GetLayer by blast
next
  case (r_Rename l w n)
  then show ?case using t_Rename by blast
next
  case (r_SetEnv l k v res l')
  then show ?case using t_SetEnv by blast
next
  case (r_Save l w res' l' w')
  then show ?case using t_Save by blast
qed

lemma tracked_reachable: "tracked l os \<Longrightarrow> reachable l"
  by (induction rule: tracked.induct) (auto intro: reachable.intros)

lemma NewLocalImage_ex_app: "NewLocalImage (ex_world e) ''app'' = Inr ex_app"
  by (simp add: NewLocalImage_def ex_world_def ex_images_def ex_app_def ex_inspect_def
      zero_ImageInspect_def)

lemma findLayerWithSha_absent:
  "\<forall>x \<in> set ls. \<exists>d'. DiffID x = Inr d' \<and> d' \<noteq> d \<Longrightarrow>
   findLayerWithSha ls d = Inl (Err (''previous image did not have layer with sha '' @ quoted d))"
  by (induction ls) auto

lemma ReuseLayer_slow:
  "\<not> (length (easyAddLayers l) > 0 \<and> hd (easyAddLayers l) = d) \<Longrightarrow>
   prevDownload w l = (e, l1, w1) \<Longrightarrow>
   ReuseLayer w d l =
     (case e of
        Some err \<Rightarrow> (Inl err, l1, w1)
      | None \<Rightarrow>
          (case prevMap l1 d of
             None \<Rightarrow> (Inl (Err (''SHA '' @ d @ '' was not found in '' @ RepoName l1)), l1, w1)
           | Some f \<Rightarrow> (case AddLayer w1 (filepath_Join (prevDir l1) f) l1 of (r, l2) \<Rightarrow> (r, l2, w1))))"
  by (auto simp: ReuseLayer_def split: option.splits)

section \<open>The gate of the previous-image download\<close>











lemma ReuseLayer_once_frame:
  "ReuseLayer_once R r = (e, r1, R1) \<Longrightarrow> prevOnce r1 \<and> (prevOnce r \<longrightarrow> R1 = R \<and> r1 = r \<and> e = None)"
  by (auto simp: ReuseLayer_once_def split: if_splits prod.splits)




section \<open>The identifier that Save returns\<close>

lemma hex_digit_in: "hex_digit d \<in> set ''0123456789abcdef''"
proof -
  have "d AND 15 \<le> 15" by (rule word_and_le1)
  then have "unat (d AND 15) \<le> unat (15 :: 8 word)" by (simp add: word_le_nat_alt)
  then have "unat (d AND 15) < length ''0123456789abcdef''" by simp
  then show ?thesis unfolding hex_digit_def by (rule nth_mem)
qed

lemma hex_encode_chars: "set (hex_encode bs) \<subseteq> set ''0123456789abcdef''"
  unfolding hex_encode_def using hex_digit_in by (induction bs) auto

lemma hex_encode_not_digest: "hex_encode bs \<noteq> ''sha256:'' @ x"
proof
  assume "hex_encode bs = ''sha256:'' @ x"
  then have "CHR ''s'' \<in> set (hex_encode bs)" by simp
  with hex_encode_chars [of bs] show False by auto
qed

lemma Save_layers_extends:
  "Save_layers w ps tw acc = Inr (tw', names) \<Longrightarrow>
   (\<exists>ext. tw' = tw @ ext) \<and> length names = length acc + length ps"
proof (induction ps arbitrary: tw acc)
  case Nil
  then show ?case by simp
next
  case (Cons p ps)
  show ?case
  proof (cases "p = []")
    case True
    with Cons.prems have "Save_layers w ps tw (acc @ [[]]) = Inr (tw', names)" by simp
    from Cons.IH [OF this] show ?thesis by simp
  next
    case False
    let ?n = "''/'' @ hex_encode (sha256 w p) @ ''.tar''"
    from Cons.prems False obtain f tw1 where
      o: "os_Open w p = Inr f" and
      a: "addFileToTar w tw ?n p f = Inr tw1" and
      r: "Save_layers w ps tw1 (acc @ [?n]) = Inr (tw', names)"
      by (auto simp: Let_def split: sum.splits)
    have "tw1 = tw @ [(?n, f)]"
      using a by (auto simp: addFileToTar_def split: option.splits)
    with Cons.IH [OF r] show ?thesis by auto
  qed
qed

lemma Save_archive_id:
  assumes "Save_archive w repoName l = Inr (imgID, tw)"
  shows "\<exists>bytes rest. configFile w l = Inr bytes \<and> imgID = hex_encode (sha256 w bytes)
     \<and> tw = (imgID @ ''.json'', bytes) # rest"
proof -
  from assms obtain cf where c: "configFile w l = Inr cf"
    by (auto simp: Save_archive_def split: sum.splits)
  let ?id = "hex_encode (sha256 w cf)"
  from assms c obtain tw1 where t1: "addTextToTar w [] (?id @ ''.json'') cf = Inr tw1"
    by (auto simp: Save_archive_def Let_def split: sum.splits)
  then have tw1: "tw1 = [(?id @ ''.json'', cf)]"
    by (auto simp: addTextToTar_def split: option.splits)
  from assms c t1 obtain tw2 names where s: "Save_layers w (layerPaths l) tw1 [] = Inr (tw2, names)"
    by (auto simp: Save_archive_def Let_def split: sum.splits)
  from assms c t1 s obtain manifest where
    t3: "addTextToTar w tw2 ''manifest.json'' manifest = Inr tw" and i: "imgID = ?id"
    by (auto simp: Save_archive_def Let_def split: sum.splits)
  from t3 have "tw = tw2 @ [(''manifest.json'', manifest)]"
    by (auto simp: addTextToTar_def split: option.splits)
  moreover from Save_layers_extends [OF s] obtain ext where "tw2 = tw1 @ ext" by blast
  ultimately have "tw = (?id @ ''.json'', cf) # (ext @ [(''manifest.json'', manifest)])"
    using tw1 by simp
  with c i show ?thesis by blast
qed

lemma Save_id:
  assumes "fst (Save w l) = Inr imgID"
  shows "\<exists>repoName tw. name_NewTag w (RepoName l) = Inr repoName \<and> Save_archive w repoName l = Inr (imgID, tw)"
proof (cases "name_NewTag w (RepoName l)")
  case (Inl e)
  then show ?thesis using assms by (simp add: Save_def)
next
  case (Inr repoName)
  show ?thesis
  proof (cases "Save_archive w repoName l")
    case (Inl e)
    then show ?thesis using assms Inr by (simp add: Save_def)
  next
    case Inr2: (Inr a)
    obtain i tw where a: "a = (i, tw)" by (cases a)
    have "i = imgID"
      using assms Inr Inr2 a by (simp add: Save_def Let_def split: inspect_result.splits)
    then show ?thesis using Inr Inr2 a by simp
  qed
qed


section \<open>Rebase\<close>

lemma index_of_first: "t \<notin> set pre \<Longrightarrow> index_of (pre @ t # post) t = Some (length pre)"
  by (induction pre) auto

lemma Rebase_add_ok:
  "Rebase_add w fs l = (Inr (), l') \<Longrightarrow>
   \<exists>ds. map (\<lambda>f. layer_digest w (filepath_Join (prevDir l) f)) fs = map Some ds
        \<and> layers_of l' = layers_of l @ ds \<and> prevDir l' = prevDir l"
proof (induction fs arbitrary: l)
  case Nil
  then show ?case by simp
next
  case (Cons f fs)
  obtain r1 l1 where a: "AddLayer w (filepath_Join (prevDir l) f) l = (r1, l1)"
    by (cases "AddLayer w (filepath_Join (prevDir l) f) l")
  from Cons.prems a have r1: "r1 = Inr ()" and rest: "Rebase_add w fs l1 = (Inr (), l')"
    by (cases r1; simp)+
  from AddLayer_cases [OF a] r1 obtain d where
    d: "layer_digest w (filepath_Join (prevDir l) f) = Some d" and
    l1: "l1 = (set_layers (layers_of l @ [d]) l)\<lparr>layerPaths := layerPaths l @ [filepath_Join (prevDir l) f], easyAddLayers := []\<rparr>"
    by auto
  from Cons.IH [OF rest] obtain ds where
    ds: "map (\<lambda>f. layer_digest w (filepath_Join (prevDir l1) f)) fs = map Some ds"
      "layers_of l' = layers_of l1 @ ds" "prevDir l' = prevDir l1"
    by blast
  have pd: "prevDir l1 = prevDir l" using l1 by simp
  have "map (\<lambda>f. layer_digest w (filepath_Join (prevDir l) f)) (f # fs) = map Some (d # ds)"
    using d ds(1) pd by simp
  moreover have "layers_of l' = layers_of l @ (d # ds)" using ds(2) l1 by simp
  moreover have "prevDir l' = prevDir l" using ds(3) pd by simp
  ultimately show ?case by blast
qed

lemma Rebase_keep_ok:
  assumes "Rebase_keep w k l = (Inr (), l')"
  shows "\<exists>bts m ds. os_Open w (filepath_Join (prevDir l) ''manifest.json'') = Inr bts
        \<and> json_Unmarshal_manifest w bts = Inr [m] \<and> k \<le> length m
        \<and> map (\<lambda>f. layer_digest w (filepath_Join (prevDir l) f)) (drop (length m - k) m) = map Some ds
        \<and> layers_of l' = layers_of l @ ds \<and> prevDir l' = prevDir l"
proof -
  from assms obtain bts where o: "os_Open w (filepath_Join (prevDir l) ''manifest.json'') = Inr bts"
    by (auto simp: Rebase_keep_def split: sum.splits)
  from assms o obtain manifest where u: "json_Unmarshal_manifest w bts = Inr manifest"
    by (auto simp: Rebase_keep_def split: sum.splits)
  from assms o u have len: "length manifest = 1" and k: "k \<le> length (hd manifest)"
    and a: "Rebase_add w (drop (length (hd manifest) - k) (hd manifest)) l = (Inr (), l')"
    by (auto simp: Rebase_keep_def split: if_splits)
  from len have m: "manifest = [hd manifest]" by (cases manifest) auto
  from Rebase_add_ok [OF a] o u m k show ?thesis by metis
qed


lemma Rebase_ok:
  assumes l: "layers_of l = pre @ t # post" and t: "t \<notin> set pre"
    and r: "Rebase w t nb l = (Inr (), l', w')"
  shows "\<exists>b bts m ds. ImageInspectWithRaw w (Name nb) = Inspected b
        \<and> os_Open w' (filepath_Join (prevDir l') ''manifest.json'') = Inr bts
        \<and> json_Unmarshal_manifest w' bts = Inr [m] \<and> length post \<le> length m
        \<and> map (\<lambda>f. layer_digest w' (filepath_Join (prevDir l') f)) (drop (length m - length post) m)
            = map Some ds
        \<and> layers_of l' = Layers (RootFS b) @ ds"
proof -
  have i: "index_of (layers_of l) t = Some (length pre)" using l t by (simp add: index_of_first)
  have k: "length (layers_of l) - length pre - 1 = length post" using l by simp
  from r i obtain b where b: "ImageInspectWithRaw w (Name nb) = Inspected b"
    by (cases "ImageInspectWithRaw w (Name nb)") (auto simp: Rebase_def Let_def)
  let ?l1 = "(set_layers (Layers (RootFS b)) l)\<lparr>layerPaths := replicate (length (Layers (RootFS b))) []\<rparr>"
  obtain e l2 w2 where p: "prevDownload w ?l1 = (e, l2, w2)" by (cases "prevDownload w ?l1")
  from r i b p k have e: "e = None" and kp: "Rebase_keep w2 (length post) l2 = (Inr (), l')" and w: "w' = w2"
    by (auto simp: Rebase_def Let_def split: option.splits prod.splits)
  have l2: "layers_of l2 = Layers (RootFS b)" using prevDownload_layers [OF p] by simp
  from Rebase_keep_ok [OF kp] l2 w b show ?thesis by metis
qed

lemma subImage_find_first:
  "\<forall>p \<in> set pre. \<exists>d. DiffID p = Inr d \<and> d \<noteq> t \<Longrightarrow> DiffID x = Inr t \<Longrightarrow>
   subImage_find (pre @ x # post) t n = Inr (n + length pre)"
  by (induction pre arbitrary: n) auto

lemma Rebase_remote_ok:
  assumes "Image r = Some v" and "v1_Layers v = Inr (pre @ x # post)" and "DiffID x = Inr t"
    and "\<forall>p \<in> set pre. \<exists>d. DiffID p = Inr d \<and> d \<noteq> t"
    and "Image nbr = Some nv" and "v1_Layers nv = Inr nls"
  shows "Rebase_remote t (Remote nbr) r = (Inr (), r\<lparr>Image := Some (v\<lparr>v1_Layers := Inr (nls @ post)\<rparr>)\<rparr>)"
proof -
  have f: "subImage_find (pre @ x # post) t 0 = Inr (length pre)"
    using subImage_find_first [OF assms(4,3), of post 0] by simp
  have s: "subImage_Layers \<lparr>img = v, topSHA = t\<rparr> = Inr (pre @ [x])"
    by (simp add: subImage_Layers_def assms(2) f)
  have m: "mutate_Rebase v (Inr (pre @ [x])) nv = Inr (v\<lparr>v1_Layers := Inr (nls @ post)\<rparr>)"
    by (simp add: mutate_Rebase_def assms(2,6))
  show ?thesis by (simp add: Rebase_remote_def assms(1,5) s m)
qed

lemma index_of_None: "index_of xs t = None \<longleftrightarrow> t \<notin> set xs"
  by (induction xs) auto

lemma Save_layers_names:
  "Save_layers w ps tw acc = Inr (tw', names) \<Longrightarrow> names = acc @ map (layerName w) ps"
proof (induction ps arbitrary: tw acc)
  case Nil
  then show ?case by simp
next
  case (Cons p ps)
  show ?case
  proof (cases "p = []")
    case True
    with Cons.prems have "Save_layers w ps tw (acc @ [[]]) = Inr (tw', names)" by simp
    from Cons.IH [OF this] True show ?thesis by (simp add: layerName_def)
  next
    case False
    let ?n = "''/'' @ hex_encode (sha256 w p) @ ''.tar''"
    from Cons.prems False obtain tw1 where
      r: "Save_layers w ps tw1 (acc @ [?n]) = Inr (tw', names)"
      by (auto simp: Let_def split: sum.splits)
    from Cons.IH [OF r] False show ?thesis by (simp add: layerName_def)
  qed
qed

section \<open>The example daemon, evaluated\<close>

lemma ex_untar:
  "untar ex_tar ''/tmp/prev'' (ex_world ex_exports\<lparr>ImageSave_log := [''app'']\<rparr>)
   = (None, ex_world ex_exports
        \<lparr>ImageSave_log := [''app''],
         files := [''/work/a1.tar'' \<mapsto> ''A1'', ''/work/a2.tar'' \<mapsto> ''A2'',
                   ''/tmp/prev/manifest.json'' \<mapsto> ''M'', ''/tmp/prev/cfg.json'' \<mapsto> ''C'',
                   ''/tmp/prev/l1/layer.tar'' \<mapsto> ''L1'', ''/tmp/prev/l2/layer.tar'' \<mapsto> ''L2'']\<rparr>)"
  by (simp add: ex_tar_def ex_world_def filepath_Join_def filepath_Dir_def)

lemma ex_index:
  "prevDownload_index ex_world_unpacked ''/tmp/prev''
   = Inr [''sha256:11'' \<mapsto> ''l1/layer.tar'', ''sha256:22'' \<mapsto> ''l2/layer.tar'']"
  by (simp add: prevDownload_index_def ex_world_unpacked_def ex_world_def os_Open_def
      filepath_Join_def ex_manifest_def ex_details_def)

lemma ex_prevDownload:
  "prevDownload (ex_world ex_exports) (l\<lparr>RepoName := ''app'', prevOnce := False\<rparr>)
   = (None, l\<lparr>RepoName := ''app'', prevOnce := True, prevDir := ''/tmp/prev'',
         prevMap := [''sha256:11'' \<mapsto> ''l1/layer.tar'', ''sha256:22'' \<mapsto> ''l2/layer.tar'']\<rparr>,
      ex_world_unpacked)"
proof -
  have w1: "ImageSave_log (ex_world ex_exports) = []"
    by (simp add: ex_world_def)
  have s: "ImageSave (ex_world ex_exports) ''app'' = Inr ex_tar"
    by (simp add: ex_world_def ex_exports_def)
  have t: "TempDir (ex_world ex_exports) = Inr ''/tmp/prev''"
    by (simp add: ex_world_def)
  show ?thesis
    by (simp add: prevDownload_def prevDownload_fetch_def Let_def w1 s t ex_untar
        ex_index [unfolded ex_world_unpacked_def] ex_world_unpacked_def)
qed



lemma ex_app_fields:
  "RepoName ex_app = ''app''" "\<not> prevOnce ex_app" "easyAddLayers ex_app = []"
  "prevMap ex_app = Map.empty" "prevDir ex_app = []" "layerPaths ex_app = [[], []]"
  "layers_of ex_app = [''sha256:11'', ''sha256:22'']"
  "ex_app\<lparr>RepoName := ''app''\<rparr> = ex_app"
  by (simp_all add: ex_app_def layers_of_def ex_inspect_def)












lemma ex_Save_app:
  "fst (Save (ex_world ex_exports) ex_app) = Inr ''cf''"
proof -
  have n: "name_NewTag (ex_world ex_exports) ''app'' = Inr ''app:latest''"
    by (simp add: ex_world_def)
  have a: "Save_archive (ex_world ex_exports) ''app:latest'' ex_app
           = Inr (''cf'', [(''cf.json'', ''config''), (''manifest.json'', ''manifest'')])"
    by (simp add: Save_archive_def configFile_def addTextToTar_def ex_world_def ex_sha256_def
        hex_encode_def hex_digit_def ex_app_fields)
  show ?thesis
    by (simp add: Save_def n a Let_def ex_app_fields, simp add: ex_world_def)
qed

lemma AddLayer_digest:
  "layer_digest w p = Some d \<Longrightarrow>
   AddLayer w p l = (Inr (), (set_layers (layers_of l @ [d]) l)
                       \<lparr>layerPaths := layerPaths l @ [p], easyAddLayers := []\<rparr>)"
  by (auto simp: AddLayer_def layer_digest_def Let_def split: sum.splits option.splits)

lemma ex_digests:
  "layer_digest (ex_world ex_exports) ''/work/a1.tar'' = Some ''sha256:a1''"
  "layer_digest (ex_world ex_exports) ''/work/a2.tar'' = Some ''sha256:a2''"
  "layer_digest ex_world_unpacked ''/tmp/prev/l1/layer.tar'' = Some ''sha256:11''"
  "layer_digest ex_world_unpacked ''/tmp/prev/l2/layer.tar'' = Some ''sha256:22''"
  by (simp_all add: layer_digest_def os_Open_def ex_world_unpacked_def ex_world_def ex_sha256_def
      hex_encode_def hex_digit_def)

lemma ex_unpacked_manifest:
  "os_Open ex_world_unpacked ''/tmp/prev/manifest.json'' = Inr ''M''"
  "json_Unmarshal_manifest ex_world_unpacked ''M'' = Inr [[''l1/layer.tar'', ''l2/layer.tar'']]"
  by (simp_all add: os_Open_def ex_world_unpacked_def ex_world_def ex_manifest_def)

lemma ex_app_a1_a2_eval:
  "ex_app_a1_a2 = (set_layers [''sha256:11'', ''sha256:22'', ''sha256:a1'', ''sha256:a2''] ex_app)
     \<lparr>layerPaths := [[], [], ''/work/a1.tar'', ''/work/a2.tar''], easyAddLayers := []\<rparr>"
  by (simp add: ex_app_a1_a2_def AddLayer_digest [OF ex_digests(1)] AddLayer_digest [OF ex_digests(2)]
      ex_app_fields ex_app_fields(7) [unfolded layers_of_def] set_layers_def layers_of_def)

lemma ex_Rebase_keep:
  assumes "prevDir l = ''/tmp/prev''"
  shows "Rebase_keep ex_world_unpacked 2 l
         = (Inr (), (set_layers (layers_of l @ [''sha256:11'', ''sha256:22'']) l)
              \<lparr>layerPaths := layerPaths l @ [''/tmp/prev/l1/layer.tar'', ''/tmp/prev/l2/layer.tar''],
                easyAddLayers := []\<rparr>)"
    and "Rebase_keep ex_world_unpacked (Suc 0) l
         = (Inr (), (set_layers (layers_of l @ [''sha256:22'']) l)
              \<lparr>layerPaths := layerPaths l @ [''/tmp/prev/l2/layer.tar''], easyAddLayers := []\<rparr>)"
proof -
  have j: "filepath_Join ''/tmp/prev'' ''manifest.json'' = ''/tmp/prev/manifest.json''"
    "filepath_Join ''/tmp/prev'' ''l1/layer.tar'' = ''/tmp/prev/l1/layer.tar''"
    "filepath_Join ''/tmp/prev'' ''l2/layer.tar'' = ''/tmp/prev/l2/layer.tar''"
    by (simp_all add: filepath_Join_def)
  show "Rebase_keep ex_world_unpacked 2 l
         = (Inr (), (set_layers (layers_of l @ [''sha256:11'', ''sha256:22'']) l)
              \<lparr>layerPaths := layerPaths l @ [''/tmp/prev/l1/layer.tar'', ''/tmp/prev/l2/layer.tar''],
                easyAddLayers := []\<rparr>)"
    by (simp add: Rebase_keep_def assms j ex_unpacked_manifest AddLayer_digest [OF ex_digests(3)]
        AddLayer_digest [OF ex_digests(4)] set_layers_def layers_of_def)
  show "Rebase_keep ex_world_unpacked (Suc 0) l
         = (Inr (), (set_layers (layers_of l @ [''sha256:22'']) l)
              \<lparr>layerPaths := layerPaths l @ [''/tmp/prev/l2/layer.tar''], easyAddLayers := []\<rparr>)"
    by (simp add: Rebase_keep_def assms j ex_unpacked_manifest AddLayer_digest [OF ex_digests(4)])
qed

lemma ex_Rebase:
  assumes n: "RepoName l = ''app''" and o: "\<not> prevOnce l"
    and i: "index_of (layers_of l) t = Some i" and k: "length (layers_of l) - Suc i = k"
  shows "Rebase (ex_world ex_exports) t (Local ex_base) l
         = (case Rebase_keep ex_world_unpacked k
                  ((set_layers [''sha256:c1''] l)
                     \<lparr>layerPaths := [[]], prevOnce := True, prevDir := ''/tmp/prev'',
                       prevMap := [''sha256:11'' \<mapsto> ''l1/layer.tar'', ''sha256:22'' \<mapsto> ''l2/layer.tar'']\<rparr>) of
              (r, l3) \<Rightarrow> (r, l3, ex_world_unpacked))"
proof -
  have b: "ImageInspectWithRaw (ex_world ex_exports) (RepoName ex_base) = Inspected (ex_inspect [''sha256:c1''])"
    by (simp add: ex_world_def ex_images_def ex_base_def)
  let ?l1 = "(set_layers [''sha256:c1''] l)\<lparr>layerPaths := [[]]\<rparr>"
  have e: "?l1\<lparr>RepoName := ''app'', prevOnce := False\<rparr> = ?l1" using n o by simp
  have p: "prevDownload (ex_world ex_exports) ?l1
      = (None, ?l1\<lparr>prevOnce := True, prevDir := ''/tmp/prev'',
           prevMap := [''sha256:11'' \<mapsto> ''l1/layer.tar'', ''sha256:22'' \<mapsto> ''l2/layer.tar'']\<rparr>,
         ex_world_unpacked)"
    using ex_prevDownload [of ?l1] n o unfolding e by simp
  have ls: "Layers (RootFS (ex_inspect [''sha256:c1''])) = [''sha256:c1'']"
    by (simp add: ex_inspect_def)
  show ?thesis
    using p by (simp add: Rebase_def i k b ls Let_def)
qed

section \<open>The claims\<close>






text \<open>
  C2 at the input that breaks it. \<open>LocalImage.SetEnv\<close> appends without looking for the
  key: on an empty local image, \<open>SetEnv FOO 1\<close> then \<open>SetEnv FOO 2\<close> leaves the two entries
  \<open>FOO=1\<close> and \<open>FOO=2\<close>, and the image's own \<open>Env\<close> still answers \<open>1\<close> for \<open>FOO\<close>.
\<close>

theorem C2_local_SetEnv_appends:
  "Config (Inspect (snd (SetEnv_local ''FOO'' ''2''
       (snd (SetEnv_local ''FOO'' ''1'' (EmptyLocalImage ''app''))))))
     = Some \<lparr>Labels = Map.empty, Env = [''FOO=1'', ''FOO=2''], Entrypoint = [], Cmd = []\<rparr>
   \<and> fst (SetEnv_local ''FOO'' ''2'' (snd (SetEnv_local ''FOO'' ''1'' (EmptyLocalImage ''app''))))
     = Inr ()
   \<and> Env_local (snd (SetEnv_local ''FOO'' ''2''
       (snd (SetEnv_local ''FOO'' ''1'' (EmptyLocalImage ''app''))))) ''FOO'' = Inr ''1''"
  by (simp add: SetEnv_local_def EmptyLocalImage_def zero_ImageInspect_def Env_local_def)

text \<open>
  C3 at the input that breaks it, local backend. The daemon holds \<open>app\<close> with the layers
  \<open>11, 22\<close>; the image is constructed from it and two layers \<open>a1, a2\<close> are added, so its
  layers are \<open>11, 22, a1, a2\<close>; it is rebased at the split \<open>22\<close> onto the base \<open>c1\<close>.
  \<open>Rebase\<close> counts \<open>keepLayers = 2\<close> on the image's own layers, but takes the layers to
  keep from the archive that the daemon exports, without a check that the archive has
  the image's layers: it succeeds with \<open>c1, 11, 22\<close>, the two added layers are lost and
  the old base is kept. The remote sibling, given the same layers, split and base,
  returns \<open>c1, a1, a2\<close>.
\<close>

theorem C3_local_rebase_loses_added_layers:
  "layers_of ex_app_a1_a2 = [''sha256:11'', ''sha256:22''] @ [''sha256:a1'', ''sha256:a2'']
   \<and> ImageInspectWithRaw (ex_world ex_exports) (Name (Local ex_base)) = Inspected (ex_inspect [''sha256:c1''])
   \<and> fst ex_C = Inr ()
   \<and> layers_of (fst (snd ex_C)) = [''sha256:c1'', ''sha256:11'', ''sha256:22'']
   \<and> layers_of (fst (snd ex_C)) \<noteq> [''sha256:c1''] @ [''sha256:a1'', ''sha256:a2'']
   \<and> Rebase_remote ''sha256:22'' (Remote (ex_remote (ex_cf []) [''sha256:c1'']))
         (ex_remote (ex_cf []) ([''sha256:11'', ''sha256:22''] @ [''sha256:a1'', ''sha256:a2'']))
       = (Inr (), ex_remote (ex_cf []) ([''sha256:c1''] @ [''sha256:a1'', ''sha256:a2'']))"
proof -
  have la: "layers_of ex_app_a1_a2 = [''sha256:11'', ''sha256:22'', ''sha256:a1'', ''sha256:a2'']"
    by (simp add: ex_app_a1_a2_eval)
  have n: "RepoName ex_app_a1_a2 = ''app''" and o: "\<not> prevOnce ex_app_a1_a2"
    by (simp_all add: ex_app_a1_a2_eval ex_app_fields)
  have i: "index_of (layers_of ex_app_a1_a2) ''sha256:22'' = Some 1" by (simp add: la)
  have k: "length (layers_of ex_app_a1_a2) - Suc 1 = 2" by (simp add: la)
  have c: "ex_C = (Inr (), (set_layers [''sha256:c1'', ''sha256:11'', ''sha256:22'']
                     ((set_layers [''sha256:c1''] ex_app_a1_a2)
                     \<lparr>layerPaths := [[]], prevOnce := True, prevDir := ''/tmp/prev'',
                       prevMap := [''sha256:11'' \<mapsto> ''l1/layer.tar'', ''sha256:22'' \<mapsto> ''l2/layer.tar'']\<rparr>))
                    \<lparr>layerPaths := [[], ''/tmp/prev/l1/layer.tar'', ''/tmp/prev/l2/layer.tar''],
                      easyAddLayers := []\<rparr>, ex_world_unpacked)"
    unfolding ex_C_def ex_Rebase [OF n o i k]
    by (simp add: ex_Rebase_keep(1))
  have b: "ImageInspectWithRaw (ex_world ex_exports) (Name (Local ex_base)) = Inspected (ex_inspect [''sha256:c1''])"
    by (simp add: ex_world_def ex_images_def ex_base_def)
  have ls: "layers_of (fst (snd ex_C)) = [''sha256:c1'', ''sha256:11'', ''sha256:22'']"
    by (simp add: c)
  have f: "fst ex_C = Inr ()" by (simp add: c)
  have r: "Rebase_remote ''sha256:22'' (Remote (ex_remote (ex_cf []) [''sha256:c1'']))
         (ex_remote (ex_cf []) ([''sha256:11'', ''sha256:22''] @ [''sha256:a1'', ''sha256:a2'']))
       = (Inr (), ex_remote (ex_cf []) ([''sha256:c1''] @ [''sha256:a1'', ''sha256:a2'']))"
    using Rebase_remote_ok [where r = "ex_remote (ex_cf []) [''sha256:11'', ''sha256:22'', ''sha256:a1'', ''sha256:a2'']"
      and v = "\<lparr>ConfigFile = ex_cf [], v1_Layers = Inr (map ex_layer [''sha256:11'', ''sha256:22'', ''sha256:a1'', ''sha256:a2''])\<rparr>"
      and pre = "[ex_layer ''sha256:11'']" and x = "ex_layer ''sha256:22''"
      and post = "map ex_layer [''sha256:a1'', ''sha256:a2'']" and t = "''sha256:22''"
      and nbr = "ex_remote (ex_cf []) [''sha256:c1'']"
      and nv = "\<lparr>ConfigFile = ex_cf [], v1_Layers = Inr (map ex_layer [''sha256:c1''])\<rparr>"
      and nls = "map ex_layer [''sha256:c1'']"]
    by (simp add: ex_remote_def ex_layer_def)
  show ?thesis using la b ls f r by simp
qed

text \<open>
  C4 at the input that breaks it. \<open>TopLayer\<close> indexes \<open>all[len(all)-1]\<close> without a check:
  on an image without layers (the one \<open>EmptyLocalImage\<close> constructs, any local image
  whose layers are empty, any remote image whose \<open>Layers()\<close> is empty) it panics and
  returns no error value.
\<close>

theorem C4_TopLayer_empty_panics:
  "TopLayer_local (EmptyLocalImage n) = Inl (Panic ''index out of range [-1]'')
   \<and> TopLayer_local (set_layers [] l) = Inl (Panic ''index out of range [-1]'')
   \<and> TopLayer_remote (r\<lparr>Image := Some (v\<lparr>v1_Layers := Inr []\<rparr>)\<rparr>)
       = Inl (Panic ''index out of range [-1]'')"
  by (simp add: TopLayer_local_def TopLayer_remote_def EmptyLocalImage_def layers_of_def
      set_layers_def zero_ImageInspect_def)

text \<open>
  C5. Local backend. When the daemon knows the new name and the layers it reports for it
  are the image's current layers followed by more, \<open>Rename\<close> sets the hint
  \<open>easyAddLayers\<close> to exactly those further layers. With a pending hint, each
  \<open>ReuseLayer\<close> whose diff ID is the first pending entry appends that diff ID (with an
  empty layer path), advances the hint and returns without calling \<open>prevDownload\<close>: the
  world is returned unchanged, so \<open>ImageSave\<close> was not called, and \<open>prevOnce\<close> is as
  before. The same holds for any sequence of calls that follows the hint in order.
\<close>

theorem C5_fast_path:
  "(ImageInspectWithRaw w name = Inspected target \<and> Layers (RootFS target) = layers_of l @ pending \<longrightarrow>
      easyAddLayers (Rename w name l) = pending
    \<and> RepoName (Rename w name l) = name
    \<and> layers_of (Rename w name l) = layers_of l
    \<and> ReuseLayer_seq w pending (Rename w name l)
        = (Inr (), (set_layers (layers_of l @ pending) (Rename w name l))
                     \<lparr>layerPaths := layerPaths l @ replicate (length pending) [],
                       easyAddLayers := []\<rparr>, w))
   \<and> (easyAddLayers l = d # rest \<longrightarrow>
        ReuseLayer w d l
          = (Inr (), (set_layers (layers_of l @ [d]) l)
                       \<lparr>layerPaths := layerPaths l @ [[]], easyAddLayers := rest\<rparr>, w)
      \<and> ImageSave_log (snd (snd (ReuseLayer w d l))) = ImageSave_log w
      \<and> prevOnce (fst (snd (ReuseLayer w d l))) = prevOnce l)
   \<and> (prefix ds (easyAddLayers l) \<longrightarrow>
        ReuseLayer_seq w ds l
          = (Inr (), (set_layers (layers_of l @ ds) l)
                       \<lparr>layerPaths := layerPaths l @ replicate (length ds) [],
                         easyAddLayers := drop (length ds) (easyAddLayers l)\<rparr>, w))"
proof (intro conjI impI)
  assume a: "ImageInspectWithRaw w name = Inspected target \<and> Layers (RootFS target) = layers_of l @ pending"
  then have r: "Rename w name l = l\<lparr>easyAddLayers := pending, RepoName := name\<rparr>"
    using Rename_hint [of w name target l] by simp
  show "easyAddLayers (Rename w name l) = pending" by (simp add: r)
  show "RepoName (Rename w name l) = name" by (simp add: r)
  show "layers_of (Rename w name l) = layers_of l" by (simp add: r)
  show "ReuseLayer_seq w pending (Rename w name l)
        = (Inr (), (set_layers (layers_of l @ pending) (Rename w name l))
                     \<lparr>layerPaths := layerPaths l @ replicate (length pending) [],
                       easyAddLayers := []\<rparr>, w)"
    using ReuseLayer_seq_fast [of pending "Rename w name l" w] by (simp add: r)
next
  assume e: "easyAddLayers l = d # rest"
  then show f: "ReuseLayer w d l
          = (Inr (), (set_layers (layers_of l @ [d]) l)
                       \<lparr>layerPaths := layerPaths l @ [[]], easyAddLayers := rest\<rparr>, w)"
    by (rule ReuseLayer_fast)
  show "ImageSave_log (snd (snd (ReuseLayer w d l))) = ImageSave_log w" by (simp add: f)
  show "prevOnce (fst (snd (ReuseLayer w d l))) = prevOnce l" by (simp add: f)
next
  assume "prefix ds (easyAddLayers l)"
  then show "ReuseLayer_seq w ds l
          = (Inr (), (set_layers (layers_of l @ ds) l)
                       \<lparr>layerPaths := layerPaths l @ replicate (length ds) [],
                         easyAddLayers := drop (length ds) (easyAddLayers l)\<rparr>, w)"
    by (rule ReuseLayer_seq_fast)
qed


theorem C5_witness:
  "NewLocalImage (ex_world ex_no_exports) ''app'' = Inr ex_app
   \<and> easyAddLayers (Rename (ex_world ex_no_exports) ''app:next'' ex_app) = [''sha256:33'', ''sha256:44'']
   \<and> fst (ReuseLayer_seq (ex_world ex_no_exports) [''sha256:33'', ''sha256:44'']
          (Rename (ex_world ex_no_exports) ''app:next'' ex_app)) = Inr ()
   \<and> layers_of (fst (snd (ReuseLayer_seq (ex_world ex_no_exports) [''sha256:33'', ''sha256:44'']
          (Rename (ex_world ex_no_exports) ''app:next'' ex_app))))
       = [''sha256:11'', ''sha256:22'', ''sha256:33'', ''sha256:44'']
   \<and> ImageSave_log (snd (snd (ReuseLayer_seq (ex_world ex_no_exports) [''sha256:33'', ''sha256:44'']
          (Rename (ex_world ex_no_exports) ''app:next'' ex_app)))) = []
   \<and> ImageSave_log (snd (snd (ReuseLayer (ex_world ex_no_exports) ''sha256:33''
          (Rename (ex_world ex_no_exports) ''app:next'' ex_app)))) = []
   \<and> \<not> prevOnce (fst (snd (ReuseLayer (ex_world ex_no_exports) ''sha256:33''
          (Rename (ex_world ex_no_exports) ''app:next'' ex_app))))
   \<and> fst (ReuseLayer_seq (ex_world ex_no_exports) [''sha256:33'']
          (Rename (ex_world ex_no_exports) ''app:next'' ex_app)) = Inr ()"
proof -
  let ?w = "ex_world ex_no_exports"
  have i: "ImageInspectWithRaw ?w ''app:next''
             = Inspected (ex_inspect [''sha256:11'', ''sha256:22'', ''sha256:33'', ''sha256:44''])"
    by (simp add: ex_world_def ex_images_def)
  have s: "Layers (RootFS (ex_inspect [''sha256:11'', ''sha256:22'', ''sha256:33'', ''sha256:44'']))
             = layers_of ex_app @ [''sha256:33'', ''sha256:44'']"
    by (simp add: ex_inspect_def ex_app_def layers_of_def)
  have log: "ImageSave_log ?w = []" by (simp add: ex_world_def)
  have once: "\<not> prevOnce ex_app" by (simp add: ex_app_def)
  note a = C5_fast_path [where w = ?w and name = "''app:next''" and l = ex_app
      and target = "ex_inspect [''sha256:11'', ''sha256:22'', ''sha256:33'', ''sha256:44'']"
      and pending = "[''sha256:33'', ''sha256:44'']"]
  have h: "easyAddLayers (Rename ?w ''app:next'' ex_app) = ''sha256:33'' # [''sha256:44'']"
    using a i s by simp
  note b = C5_fast_path [where w = ?w and l = "Rename ?w ''app:next'' ex_app"
      and d = "''sha256:33''" and rest = "[''sha256:44'']"]
  have p: "prevOnce (Rename ?w ''app:next'' ex_app) = prevOnce ex_app"
    by (simp add: Rename_def Let_def split: inspect_result.splits)
  have la: "layers_of ex_app = [''sha256:11'', ''sha256:22'']"
    by (simp add: ex_app_def ex_inspect_def layers_of_def)
  from a i s have seq: "ReuseLayer_seq ?w [''sha256:33'', ''sha256:44''] (Rename ?w ''app:next'' ex_app)
      = (Inr (), (set_layers (layers_of ex_app @ [''sha256:33'', ''sha256:44'']) (Rename ?w ''app:next'' ex_app))
                   \<lparr>layerPaths := layerPaths ex_app @ replicate (length [''sha256:33'', ''sha256:44'']) [],
                     easyAddLayers := []\<rparr>, ?w)"
    by blast
  from b h have one: "ImageSave_log (snd (snd (ReuseLayer ?w ''sha256:33'' (Rename ?w ''app:next'' ex_app))))
        = ImageSave_log ?w
      \<and> prevOnce (fst (snd (ReuseLayer ?w ''sha256:33'' (Rename ?w ''app:next'' ex_app))))
        = prevOnce (Rename ?w ''app:next'' ex_app)"
    by blast
  have c1: "NewLocalImage ?w ''app'' = Inr ex_app" by (rule NewLocalImage_ex_app)
  have c2: "easyAddLayers (Rename ?w ''app:next'' ex_app) = [''sha256:33'', ''sha256:44'']"
    using h by simp
  have c3: "fst (ReuseLayer_seq ?w [''sha256:33'', ''sha256:44''] (Rename ?w ''app:next'' ex_app)) = Inr ()"
    by (simp only: seq fst_conv)
  have c4: "layers_of (fst (snd (ReuseLayer_seq ?w [''sha256:33'', ''sha256:44''] (Rename ?w ''app:next'' ex_app))))
      = [''sha256:11'', ''sha256:22'', ''sha256:33'', ''sha256:44'']"
    by (simp only: seq fst_conv snd_conv layers_of_updates layers_of_set_layers la append.simps)
  have c5: "ImageSave_log (snd (snd (ReuseLayer_seq ?w [''sha256:33'', ''sha256:44''] (Rename ?w ''app:next'' ex_app)))) = []"
    by (simp only: seq snd_conv log)
  have c6: "ImageSave_log (snd (snd (ReuseLayer ?w ''sha256:33'' (Rename ?w ''app:next'' ex_app)))) = []"
    using one log by simp
  have c7: "\<not> prevOnce (fst (snd (ReuseLayer ?w ''sha256:33'' (Rename ?w ''app:next'' ex_app))))"
    using one p once by simp
  note c = C5_fast_path [where w = ?w and l = "Rename ?w ''app:next'' ex_app" and ds = "[''sha256:33'']"]
  have pre: "prefix [''sha256:33''] (easyAddLayers (Rename ?w ''app:next'' ex_app))"
    by (simp add: h)
  from c pre have c8: "fst (ReuseLayer_seq ?w [''sha256:33''] (Rename ?w ''app:next'' ex_app)) = Inr ()"
    by simp
  show ?thesis
    using c1 c2 c3 c4 c5 c6 c7 c8 by blast
qed

text \<open>
  C6. Local backend. The config object that \<open>configFile\<close> serialises lists exactly the
  image's layers, in order, as its rootfs diff IDs. When \<open>Save\<close> returns an identifier,
  it is the hexadecimal SHA-256 of the bytes \<open>configFile\<close> returned. The identifier is
  bare hexadecimal, a diff ID carries the prefix \<open>sha256:\<close>: the identifier differs from
  every such layer of the image and from every diff ID that \<open>AddLayer\<close> can compute.
\<close>

theorem C6_save_identifier:
  "obj_rootfs_diff_ids (imgConfig w l) = layers_of l
   \<and> configFile w l = json_Marshal_config w (imgConfig w l)
   \<and> (fst (Save w l) = Inr imgID \<longrightarrow>
        (\<exists>bytes. configFile w l = Inr bytes \<and> imgID = hex_encode (sha256 w bytes))
      \<and> (\<forall>d \<in> set (layers_of l). prefix ''sha256:'' d \<longrightarrow> imgID \<noteq> d)
      \<and> (\<forall>w2 p d. layer_digest w2 p = Some d \<longrightarrow> imgID \<noteq> d))"
proof (intro conjI impI)
  show "obj_rootfs_diff_ids (imgConfig w l) = layers_of l" by (simp add: imgConfig_def)
  show "configFile w l = json_Marshal_config w (imgConfig w l)" by (simp add: configFile_def)
next
  assume s: "fst (Save w l) = Inr imgID"
  from Save_id [OF s] obtain repoName tw where "Save_archive w repoName l = Inr (imgID, tw)"
    by blast
  from Save_archive_id [OF this] obtain bytes where
    b: "configFile w l = Inr bytes \<and> imgID = hex_encode (sha256 w bytes)" by blast
  then show "\<exists>bytes. configFile w l = Inr bytes \<and> imgID = hex_encode (sha256 w bytes)" by blast
  show "\<forall>d \<in> set (layers_of l). prefix ''sha256:'' d \<longrightarrow> imgID \<noteq> d"
    using b hex_encode_not_digest by (auto simp: prefix_def)
  show "\<forall>w2 p d. layer_digest w2 p = Some d \<longrightarrow> imgID \<noteq> d"
    using b hex_encode_not_digest
    by (auto simp: layer_digest_def split: sum.splits option.splits)
qed

theorem C6_witness:
  "fst (Save (ex_world ex_exports) ex_app) = Inr ''cf''
   \<and> obj_rootfs_diff_ids (imgConfig (ex_world ex_exports) ex_app) = [''sha256:11'', ''sha256:22'']
   \<and> configFile (ex_world ex_exports) ex_app = Inr ''config''
   \<and> ''cf'' = hex_encode (sha256 (ex_world ex_exports) ''config'')
   \<and> ''cf'' \<noteq> ''sha256:11'' \<and> ''cf'' \<noteq> ''sha256:22''"
proof -
  note T = C6_save_identifier [where w = "ex_world ex_exports" and l = ex_app and imgID = "''cf''"]
  have c: "configFile (ex_world ex_exports) ex_app = Inr ''config''"
    by (simp add: configFile_def ex_world_def)
  from T ex_Save_app
  have "obj_rootfs_diff_ids (imgConfig (ex_world ex_exports) ex_app) = layers_of ex_app
      \<and> (\<exists>bytes. configFile (ex_world ex_exports) ex_app = Inr bytes
            \<and> ''cf'' = hex_encode (sha256 (ex_world ex_exports) bytes))
      \<and> (\<forall>d \<in> set (layers_of ex_app). prefix ''sha256:'' d \<longrightarrow> ''cf'' \<noteq> d)"
    by blast
  then show ?thesis using ex_Save_app c by (auto simp: ex_app_fields)
qed

text \<open>
  C7 at the input that breaks it, remote backend. The image \<open>repo/app\<close> has a previous
  image with the layers \<open>11, 22\<close>, and \<open>ReuseLayer\<close> is asked for \<open>99\<close>. The call fails and
  leaves the image as it was, but its error is the one of \<open>findLayerWithSha\<close>, returned
  as it is: it names the diff ID and not the image. The local sibling, asked the same
  of the image \<open>app\<close> with the same previous layers, names both.
\<close>

theorem C7_remote_error_omits_image_name:
  "fst (ReuseLayer_remote ex_registry ''sha256:99'' (ex_remote (ex_cf []) [''sha256:11'', ''sha256:22'']))
     = Inl (Err (''previous image did not have layer with sha '' @ quoted ''sha256:99''))
   \<and> Image (fst (snd (ReuseLayer_remote ex_registry ''sha256:99'' (ex_remote (ex_cf []) [''sha256:11'', ''sha256:22'']))))
       = Image (ex_remote (ex_cf []) [''sha256:11'', ''sha256:22''])
   \<and> RepoName (ex_remote (ex_cf []) [''sha256:11'', ''sha256:22'']) = ''repo/app''
   \<and> names_str (''previous image did not have layer with sha '' @ quoted ''sha256:99'') ''sha256:99''
   \<and> \<not> names_str (''previous image did not have layer with sha '' @ quoted ''sha256:99'') ''repo/app''
   \<and> fst (ReuseLayer (ex_world ex_exports) ''sha256:99'' ex_app)
       = Inl (Err ''SHA sha256:99 was not found in app'')
   \<and> RepoName ex_app = ''app''
   \<and> names_str ''SHA sha256:99 was not found in app'' ''sha256:99''
   \<and> names_str ''SHA sha256:99 was not found in app'' ''app''"
proof -
  let ?l1 = "ex_app\<lparr>prevOnce := True, prevDir := ''/tmp/prev'',
          prevMap := [''sha256:11'' \<mapsto> ''l1/layer.tar'', ''sha256:22'' \<mapsto> ''l2/layer.tar'']\<rparr>"
  have pd: "prevDownload (ex_world ex_exports) ex_app = (None, ?l1, ex_world_unpacked)"
    using ex_prevDownload [of ex_app] by (simp add: ex_app_def)
  have hint: "\<not> (length (easyAddLayers ex_app) > 0 \<and> hd (easyAddLayers ex_app) = ''sha256:99'')"
    by (simp add: ex_app_def)
  have L: "fst (ReuseLayer (ex_world ex_exports) ''sha256:99'' ex_app)
             = Inl (Err ''SHA sha256:99 was not found in app'')"
    using hint by (simp add: ReuseLayer_def pd ex_app_fields)
  have R: "fst (ReuseLayer_remote ex_registry ''sha256:99'' (ex_remote (ex_cf []) [''sha256:11'', ''sha256:22'']))
     = Inl (Err (''previous image did not have layer with sha '' @ quoted ''sha256:99''))
   \<and> Image (fst (snd (ReuseLayer_remote ex_registry ''sha256:99'' (ex_remote (ex_cf []) [''sha256:11'', ''sha256:22'']))))
       = Image (ex_remote (ex_cf []) [''sha256:11'', ''sha256:22''])
   \<and> RepoName (ex_remote (ex_cf []) [''sha256:11'', ''sha256:22'']) = ''repo/app''"
    by (simp add: ReuseLayer_remote_def ReuseLayer_once_def ReuseLayer_fetch_def newV1Image_def
        ex_registry_def ex_remote_def ex_layer_def quoted_def)
  have N: "names_str (''previous image did not have layer with sha '' @ quoted ''sha256:99'') ''sha256:99''
   \<and> \<not> names_str (''previous image did not have layer with sha '' @ quoted ''sha256:99'') ''repo/app''
   \<and> names_str ''SHA sha256:99 was not found in app'' ''sha256:99''
   \<and> names_str ''SHA sha256:99 was not found in app'' ''app''"
    by (simp add: quoted_def)
  show ?thesis using L R N ex_app_fields(1) by blast
qed



text \<open>
  C9. Local backend, for every image built by \<open>EmptyLocalImage\<close> or \<open>NewLocalImage\<close> and
  changed by the operations of the interface (\<open>AddLayer\<close>, \<open>ReuseLayer\<close>, \<open>Rebase\<close> and
  the others, whatever they returned).
  \<^item> \<open>layerPaths\<close> is as long as the layers, and the image has a record of origins.
  \<^item> With the origin of each layer recorded in \<open>os\<close>, the entry of \<open>layerPaths\<close> at each
    position is the content path of the layer at that position: empty where the layer
    is carried by reference; where the layer was read from a file, the path of that
    file - the file at this path, hashed in the world in which \<open>AddLayer\<close> read it,
    gives the diff ID at this position.
\<close>

theorem C9_layerPaths_match_layers:
  "(reachable l \<longrightarrow> length (layerPaths l) = length (layers_of l) \<and> (\<exists>os. tracked l os))
   \<and> (tracked l os \<longrightarrow>
        reachable l
      \<and> length (layerPaths l) = length (layers_of l)
      \<and> length os = length (layers_of l)
      \<and> (\<forall>i < length (layers_of l). path_of_layer (os ! i) (layerPaths l ! i) (layers_of l ! i)))"
proof (intro conjI impI)
  assume r: "reachable l"
  then obtain os' where t: "tracked l os'" using reachable_tracked by blast
  show "\<exists>os. tracked l os" using t by blast
  show "length (layerPaths l) = length (layers_of l)"
    using tracked_paths_ok [OF t] by (simp add: paths_ok_def)
next
  assume t: "tracked l os"
  show "reachable l" using t by (rule tracked_reachable)
  show "length (layerPaths l) = length (layers_of l)"
    using tracked_paths_ok [OF t] by (simp add: paths_ok_def)
  show "length os = length (layers_of l)"
    using tracked_paths_ok [OF t] by (simp add: paths_ok_def)
  show "\<forall>i < length (layers_of l). path_of_layer (os ! i) (layerPaths l ! i) (layers_of l ! i)"
    using tracked_paths_ok [OF t] by (simp add: paths_ok_def)
qed

theorem C9_witness:
  "tracked ex_app_a1_a2 [None, None, Some (ex_world ex_exports), Some (ex_world ex_exports)]
   \<and> reachable ex_app_a1_a2
   \<and> layerPaths ex_app_a1_a2 = [[], [], ''/work/a1.tar'', ''/work/a2.tar'']
   \<and> layers_of ex_app_a1_a2 = [''sha256:11'', ''sha256:22'', ''sha256:a1'', ''sha256:a2'']
   \<and> length (layerPaths ex_app_a1_a2) = length (layers_of ex_app_a1_a2)
   \<and> layer_digest (ex_world ex_exports) ''/work/a1.tar'' = Some ''sha256:a1''
   \<and> layer_digest (ex_world ex_exports) ''/work/a2.tar'' = Some ''sha256:a2''
   \<and> \<not> path_of_layer (Some (ex_world ex_exports)) ''/work/a2.tar'' ''sha256:a1''"
proof -
  let ?w = "ex_world ex_exports"
  let ?l1 = "snd (AddLayer ?w ''/work/a1.tar'' ex_app)"
  have e1: "AddLayer ?w ''/work/a1.tar'' ex_app
            = (Inr (), (set_layers [''sha256:11'', ''sha256:22'', ''sha256:a1''] ex_app)
                         \<lparr>layerPaths := [[], [], ''/work/a1.tar''], easyAddLayers := []\<rparr>)"
    by (simp add: AddLayer_digest [OF ex_digests(1)] ex_app_fields)
  have t0: "tracked ex_app (replicate (length (layers_of ex_app)) None)"
    using NewLocalImage_ex_app [of ex_exports] by (rule t_new)
  have t1: "tracked ?l1 (replicate (length (layers_of ex_app)) None
              @ replicate (length (layers_of ?l1) - length (layers_of ex_app)) (Some ?w))"
    using t0 by (rule t_AddLayer [where w = ?w and p = "''/work/a1.tar''"
          and res = "fst (AddLayer ?w ''/work/a1.tar'' ex_app)"]) simp
  have t2: "tracked ex_app_a1_a2 ((replicate (length (layers_of ex_app)) None
              @ replicate (length (layers_of ?l1) - length (layers_of ex_app)) (Some ?w))
              @ replicate (length (layers_of ex_app_a1_a2) - length (layers_of ?l1)) (Some ?w))"
    using t1 by (rule t_AddLayer [where w = ?w and p = "''/work/a2.tar''"
          and res = "fst (AddLayer ?w ''/work/a2.tar'' ?l1)"]) (simp add: ex_app_a1_a2_def)
  have ls: "layers_of ex_app_a1_a2 = [''sha256:11'', ''sha256:22'', ''sha256:a1'', ''sha256:a2'']"
    and ps: "layerPaths ex_app_a1_a2 = [[], [], ''/work/a1.tar'', ''/work/a2.tar'']"
    by (simp_all add: ex_app_a1_a2_eval)
  have os: "(replicate (length (layers_of ex_app)) None
              @ replicate (length (layers_of ?l1) - length (layers_of ex_app)) (Some ?w))
              @ replicate (length (layers_of ex_app_a1_a2) - length (layers_of ?l1)) (Some ?w)
            = [None, None, Some ?w, Some ?w]"
    by (simp add: ls e1 ex_app_fields numeral_2_eq_2)
  have t: "tracked ex_app_a1_a2 [None, None, Some ?w, Some ?w]"
    using t2 unfolding os .
  note T = C9_layerPaths_match_layers [where l = ex_app_a1_a2 and os = "[None, None, Some ?w, Some ?w]"]
  from T t have r: "reachable ex_app_a1_a2" by blast
  from T r have len: "length (layerPaths ex_app_a1_a2) = length (layers_of ex_app_a1_a2)" by blast
  from T t have a: "\<forall>i < length (layers_of ex_app_a1_a2).
      path_of_layer ([None, None, Some ?w, Some ?w] ! i) (layerPaths ex_app_a1_a2 ! i)
        (layers_of ex_app_a1_a2 ! i)"
    by blast
  have d1: "layer_digest ?w ''/work/a1.tar'' = Some ''sha256:a1''"
    using a [rule_format, of 2] by (simp add: ls ps path_of_layer_def)
  have d2: "layer_digest ?w ''/work/a2.tar'' = Some ''sha256:a2''"
    using a [rule_format, of 3] by (simp add: ls ps path_of_layer_def)
  have n: "\<not> path_of_layer (Some ?w) ''/work/a2.tar'' ''sha256:a1''"
    by (simp add: path_of_layer_def d2)
  show ?thesis using t r ls ps len d1 d2 n by blast
qed

text \<open>
  C10, as stated, fails: the loop of \<open>Env\<close> returns at the first entry whose first piece
  is the key, so an entry equal to the key is never reached behind an earlier entry for
  the same key. The env \<open>K=v, K\<close> contains the entry \<open>K\<close>, and the lookup of \<open>K\<close> returns
  \<open>v\<close> in both backends.
\<close>

theorem C10_counterexample:
  "''K'' \<in> set [''K=v'', ''K''] \<and> CHR ''='' \<notin> set ''K''
   \<and> Env_local (ex_local (Some (ex_config [''K=v'', ''K''])) []) ''K'' = Inr ''v''
   \<and> Env_remote (ex_remote (ex_cf [''K=v'', ''K'']) []) ''K'' = Inr ''v''"
  by (simp add: Env_local_def Env_remote_def ex_local_def ex_remote_def ex_cf_def ex_config_def
      zero_ImageInspect_def)

text \<open>
  C10, amended. In both backends, for an existing image, when no entry before it has the
  key and the key holds no \<open>=\<close>: an entry equal to the key makes \<open>Env\<close> panic (\<open>parts[1]\<close>
  on a one-piece split) instead of returning a value or an error; an entry \<open>key=val\<close>
  makes it return \<open>val\<close> up to its first \<open>=\<close>, so \<open>KEY=a=b\<close> gives \<open>a\<close>.
\<close>

theorem C10_env_first_match:
  "CHR ''='' \<notin> set key \<and> (\<forall>e \<in> set pre. env_key e \<noteq> key)
   \<and> Config (Inspect l) = Some c \<and> Image r = Some v \<and> ConfigFile v = Inr (Some cf) \<longrightarrow>
     (Env c = pre @ key # post \<longrightarrow>
        Env_local l key = Inl (Panic ''index out of range [1] with length 1''))
   \<and> (Env (ConfigFile_Config cf) = pre @ key # post \<longrightarrow>
        Env_remote r key = Inl (Panic ''index out of range [1] with length 1''))
   \<and> (Env c = pre @ (key @ ''='' @ val) # post \<longrightarrow>
        Env_local l key = Inr (takeWhile (\<lambda>c. c \<noteq> CHR ''='') val))
   \<and> (Env (ConfigFile_Config cf) = pre @ (key @ ''='' @ val) # post \<longrightarrow>
        Env_remote r key = Inr (takeWhile (\<lambda>c. c \<noteq> CHR ''='') val))"
  by (auto simp: Env_local_def Env_remote_def env_lookup_prefix env_lookup_bare env_lookup_pair
      simp del: env_lookup.simps(2))

theorem C10_witness:
  "Env_local (ex_local (Some (ex_config [''A=1'', ''K'', ''K=v''])) []) ''K''
     = Inl (Panic ''index out of range [1] with length 1'')
   \<and> Env_remote (ex_remote (ex_cf [''A=1'', ''K'', ''K=v'']) []) ''K''
     = Inl (Panic ''index out of range [1] with length 1'')
   \<and> Env_local (ex_local (Some (ex_config [''A=1'', ''KEY=a=b''])) []) ''KEY'' = Inr ''a''
   \<and> Env_remote (ex_remote (ex_cf [''A=1'', ''KEY=a=b'']) []) ''KEY'' = Inr ''a''"
  using C10_env_first_match [where key = "''K''" and pre = "[''A=1'']" and post = "[''K=v'']"
          and l = "ex_local (Some (ex_config [''A=1'', ''K'', ''K=v''])) []"
          and c = "ex_config [''A=1'', ''K'', ''K=v'']"
          and r = "ex_remote (ex_cf [''A=1'', ''K'', ''K=v'']) []"
          and v = "\<lparr>ConfigFile = ex_cf [''A=1'', ''K'', ''K=v''], v1_Layers = Inr []\<rparr>"
          and cf = "\<lparr>ConfigFile_Created = ''2018-10-01T00:00:00Z'',
                     ConfigFile_Config = ex_config [''A=1'', ''K'', ''K=v'']\<rparr>"]
        C10_env_first_match [where key = "''KEY''" and pre = "[''A=1'']" and post = "[]"
          and val = "''a=b''"
          and l = "ex_local (Some (ex_config [''A=1'', ''KEY=a=b''])) []"
          and c = "ex_config [''A=1'', ''KEY=a=b'']"
          and r = "ex_remote (ex_cf [''A=1'', ''KEY=a=b'']) []"
          and v = "\<lparr>ConfigFile = ex_cf [''A=1'', ''KEY=a=b''], v1_Layers = Inr []\<rparr>"
          and cf = "\<lparr>ConfigFile_Created = ''2018-10-01T00:00:00Z'',
                     ConfigFile_Config = ex_config [''A=1'', ''KEY=a=b'']\<rparr>"]
  by (simp add: ex_local_def ex_remote_def ex_cf_def ex_config_def zero_ImageInspect_def
      env_key_def del: env_lookup.simps(2))

section \<open>Further properties\<close>

text \<open>
  The remote sibling does what C2 says: with no entry for the key before it, the first
  entry for the key is replaced in place; with no entry for the key at all, \<open>key=val\<close>
  is appended.
\<close>

theorem SetEnv_remote_replaces_or_appends:
  "Image r = Some v \<and> ConfigFile v = Inr (Some cf) \<and> (\<forall>e \<in> set pre. env_key e \<noteq> key) \<longrightarrow>
     (Env (ConfigFile_Config cf) = pre @ e # post \<and> env_key e = key \<longrightarrow>
        SetEnv_remote key val r =
          (Inr (), r\<lparr>Image := Some (v\<lparr>ConfigFile := Inr (Some (cf\<lparr>ConfigFile_Config :=
             (ConfigFile_Config cf)\<lparr>Env := pre @ (key @ ''='' @ val) # post\<rparr>\<rparr>))\<rparr>)\<rparr>))
   \<and> (Env (ConfigFile_Config cf) = pre \<longrightarrow>
        SetEnv_remote key val r =
          (Inr (), r\<lparr>Image := Some (v\<lparr>ConfigFile := Inr (Some (cf\<lparr>ConfigFile_Config :=
             (ConfigFile_Config cf)\<lparr>Env := pre @ [key @ ''='' @ val]\<rparr>\<rparr>))\<rparr>)\<rparr>))"
  by (simp add: SetEnv_remote_def env_replace_first env_replace_absent assign_Image_def
      mutate_Config_def Let_def)

theorem SetEnv_remote_witness:
  "map_option (\<lambda>v. map_sum id (map_option (\<lambda>cf. Env (ConfigFile_Config cf))) (ConfigFile v))
     (Image (snd (SetEnv_remote ''FOO'' ''2'' (ex_remote (ex_cf [''A=1'', ''FOO=1'', ''B=2'']) []))))
     = Some (Inr (Some [''A=1'', ''FOO=2'', ''B=2'']))
   \<and> map_option (\<lambda>v. map_sum id (map_option (\<lambda>cf. Env (ConfigFile_Config cf))) (ConfigFile v))
     (Image (snd (SetEnv_remote ''FOO'' ''2'' (ex_remote (ex_cf [''A=1'']) []))))
     = Some (Inr (Some [''A=1'', ''FOO=2'']))"
  using SetEnv_remote_replaces_or_appends [where key = "''FOO''" and val = "''2''"
          and pre = "[''A=1'']" and e = "''FOO=1''" and post = "[''B=2'']"
          and r = "ex_remote (ex_cf [''A=1'', ''FOO=1'', ''B=2'']) []"
          and v = "\<lparr>ConfigFile = ex_cf [''A=1'', ''FOO=1'', ''B=2''], v1_Layers = Inr []\<rparr>"
          and cf = "\<lparr>ConfigFile_Created = ''2018-10-01T00:00:00Z'',
                     ConfigFile_Config = ex_config [''A=1'', ''FOO=1'', ''B=2'']\<rparr>"]
        SetEnv_remote_replaces_or_appends [where key = "''FOO''" and val = "''2''"
          and pre = "[''A=1'']" and e = "''FOO=1''" and post = "[]"
          and r = "ex_remote (ex_cf [''A=1'']) []"
          and v = "\<lparr>ConfigFile = ex_cf [''A=1''], v1_Layers = Inr []\<rparr>"
          and cf = "\<lparr>ConfigFile_Created = ''2018-10-01T00:00:00Z'',
                     ConfigFile_Config = ex_config [''A=1'']\<rparr>"]
  by (simp add: ex_remote_def ex_cf_def ex_config_def env_key_def)

text \<open>
  A split diff ID that is not among the layers: the local \<open>Rebase\<close> returns its "not
  found" error, naming the diff ID and the image, and leaves the image and the world as
  they were.
\<close>

theorem Rebase_split_absent:
  "t \<notin> set (layers_of l) \<longrightarrow>
     Rebase w t nb l
       = (Inl (Err (quoted t @ '' not found in '' @ quoted (RepoName l) @ '' during rebase'')), l, w)"
  by (simp add: Rebase_def index_of_None [symmetric])

theorem Rebase_split_absent_witness:
  "Rebase (ex_world ex_exports) ''sha256:99'' (Local ex_base) ex_app
     = (Inl (Err (quoted ''sha256:99'' @ '' not found in '' @ quoted ''app'' @ '' during rebase'')),
        ex_app, ex_world ex_exports)"
  using Rebase_split_absent [where t = "''sha256:99''" and l = ex_app and w = "ex_world ex_exports"
      and nb = "Local ex_base"]
  by (simp add: ex_app_fields)

text \<open>
  The manifest that \<open>Save\<close> writes last lists one name for each entry of \<open>layerPaths\<close>,
  in order: the empty string for an empty path, the tar entry's name otherwise.
\<close>

theorem Save_manifest_layers:
  "Save_archive w repoName l = Inr (imgID, tw) \<longrightarrow>
     (\<exists>manifest. json_Marshal_manifest w (imgID @ ''.json'') repoName (map (layerName w) (layerPaths l))
                   = Inr manifest
        \<and> last tw = (''manifest.json'', manifest))
   \<and> length (map (layerName w) (layerPaths l)) = length (layerPaths l)"
proof (intro impI)
  assume a: "Save_archive w repoName l = Inr (imgID, tw)"
  from a obtain cf where c: "configFile w l = Inr cf"
    by (auto simp: Save_archive_def split: sum.splits)
  let ?id = "hex_encode (sha256 w cf)"
  from a c obtain tw1 where t1: "addTextToTar w [] (?id @ ''.json'') cf = Inr tw1"
    by (auto simp: Save_archive_def Let_def split: sum.splits)
  from a c t1 obtain tw2 names where s: "Save_layers w (layerPaths l) tw1 [] = Inr (tw2, names)"
    by (auto simp: Save_archive_def Let_def split: sum.splits)
  from a c t1 s obtain manifest where
    m: "json_Marshal_manifest w (?id @ ''.json'') repoName names = Inr manifest" and
    t3: "addTextToTar w tw2 ''manifest.json'' manifest = Inr tw" and i: "imgID = ?id"
    by (auto simp: Save_archive_def Let_def split: sum.splits)
  from t3 have "tw = tw2 @ [(''manifest.json'', manifest)]"
    by (auto simp: addTextToTar_def split: option.splits)
  then have "last tw = (''manifest.json'', manifest)" by simp
  moreover have "names = map (layerName w) (layerPaths l)" using Save_layers_names [OF s] by simp
  ultimately show "(\<exists>manifest. json_Marshal_manifest w (imgID @ ''.json'') repoName (map (layerName w) (layerPaths l))
                   = Inr manifest
        \<and> last tw = (''manifest.json'', manifest))
   \<and> length (map (layerName w) (layerPaths l)) = length (layerPaths l)"
    using m i by simp
qed

theorem Save_manifest_layers_witness:
  "Save_archive (ex_world ex_exports) ''app:latest'' ex_app
     = Inr (''cf'', [(''cf.json'', ''config''), (''manifest.json'', ''manifest'')])
   \<and> map (layerName (ex_world ex_exports)) (layerPaths ex_app) = [[], []]
   \<and> (\<exists>manifest. json_Marshal_manifest (ex_world ex_exports) (''cf'' @ ''.json'') ''app:latest''
                      (map (layerName (ex_world ex_exports)) (layerPaths ex_app)) = Inr manifest
         \<and> last [(''cf.json'', ''config''), (''manifest.json'', ''manifest'')] = (''manifest.json'', manifest))"
proof -
  have a: "Save_archive (ex_world ex_exports) ''app:latest'' ex_app
           = Inr (''cf'', [(''cf.json'', ''config''), (''manifest.json'', ''manifest'')])"
    by (simp add: Save_archive_def configFile_def addTextToTar_def ex_world_def ex_sha256_def
        hex_encode_def hex_digit_def ex_app_fields)
  have n: "map (layerName (ex_world ex_exports)) (layerPaths ex_app) = [[], []]"
    by (simp add: layerName_def ex_app_fields)
  from Save_manifest_layers [where w = "ex_world ex_exports" and repoName = "''app:latest''"
      and l = ex_app and imgID = "''cf''"
      and tw = "[(''cf.json'', ''config''), (''manifest.json'', ''manifest'')]"] a
  have "\<exists>manifest. json_Marshal_manifest (ex_world ex_exports) (''cf'' @ ''.json'') ''app:latest''
                      (map (layerName (ex_world ex_exports)) (layerPaths ex_app)) = Inr manifest
         \<and> last [(''cf.json'', ''config''), (''manifest.json'', ''manifest'')] = (''manifest.json'', manifest)"
    by blast
  with a n show ?thesis by blast
qed

text \<open>
  What \<open>Rebase\<close> leaves in general. The split diff ID stands first at index \<open>length pre\<close>,
  and \<open>post\<close> are the \<open>k\<close> entries above it.
  \<^item> Local backend: a successful \<open>Rebase\<close> leaves the layers that the daemon reports for
    the new base's name, followed by the diff IDs that \<open>AddLayer\<close> computes for the last
    \<open>k\<close> layer files of the one entry of \<open>manifest.json\<close> under the image's \<open>prevDir\<close>.
  \<^item> Where those files hash to \<open>post\<close>, position by position, the result is the new
    base's layers followed by \<open>post\<close>.
  \<^item> Remote backend: \<open>subImage.Layers\<close> is the image's layers up to and including the
    split, and the composition of the registry library gives the new base's layers
    followed by \<open>post\<close>, the layers themselves, unchanged.
\<close>

theorem Rebase_layers:
  "(layers_of l = pre @ t # post \<and> t \<notin> set pre \<and> Rebase w t nb l = (Inr (), l', w') \<longrightarrow>
      (\<exists>b bts m ds. ImageInspectWithRaw w (Name nb) = Inspected b
        \<and> os_Open w' (filepath_Join (prevDir l') ''manifest.json'') = Inr bts
        \<and> json_Unmarshal_manifest w' bts = Inr [m] \<and> length post \<le> length m
        \<and> map (\<lambda>f. layer_digest w' (filepath_Join (prevDir l') f)) (drop (length m - length post) m)
            = map Some ds
        \<and> layers_of l' = Layers (RootFS b) @ ds))
   \<and> (layers_of l = pre @ t # post \<and> t \<notin> set pre \<and> Rebase w t nb l = (Inr (), l', w')
      \<and> ImageInspectWithRaw w (Name nb) = Inspected b
      \<and> os_Open w' (filepath_Join (prevDir l') ''manifest.json'') = Inr bts
      \<and> json_Unmarshal_manifest w' bts = Inr [m]
      \<and> map (\<lambda>f. layer_digest w' (filepath_Join (prevDir l') f)) (drop (length m - length post) m)
          = map Some post \<longrightarrow>
      layers_of l' = Layers (RootFS b) @ post)
   \<and> (Image r = Some v \<and> v1_Layers v = Inr (vpre @ x # vpost) \<and> DiffID x = Inr t
      \<and> (\<forall>p \<in> set vpre. \<exists>d. DiffID p = Inr d \<and> d \<noteq> t)
      \<and> Image nbr = Some nv \<and> v1_Layers nv = Inr nls \<longrightarrow>
      Rebase_remote t (Remote nbr) r
        = (Inr (), r\<lparr>Image := Some (v\<lparr>v1_Layers := Inr (nls @ vpost)\<rparr>)\<rparr>))"
proof (intro conjI impI)
  assume "layers_of l = pre @ t # post \<and> t \<notin> set pre \<and> Rebase w t nb l = (Inr (), l', w')"
  then show "\<exists>b bts m ds. ImageInspectWithRaw w (Name nb) = Inspected b
        \<and> os_Open w' (filepath_Join (prevDir l') ''manifest.json'') = Inr bts
        \<and> json_Unmarshal_manifest w' bts = Inr [m] \<and> length post \<le> length m
        \<and> map (\<lambda>f. layer_digest w' (filepath_Join (prevDir l') f)) (drop (length m - length post) m)
            = map Some ds
        \<and> layers_of l' = Layers (RootFS b) @ ds"
    using Rebase_ok [of l pre t post w nb l' w'] by simp
next
  assume a: "layers_of l = pre @ t # post \<and> t \<notin> set pre \<and> Rebase w t nb l = (Inr (), l', w')
      \<and> ImageInspectWithRaw w (Name nb) = Inspected b
      \<and> os_Open w' (filepath_Join (prevDir l') ''manifest.json'') = Inr bts
      \<and> json_Unmarshal_manifest w' bts = Inr [m]
      \<and> map (\<lambda>f. layer_digest w' (filepath_Join (prevDir l') f)) (drop (length m - length post) m)
          = map Some post"
  then obtain b2 bts2 m2 ds where
    o: "ImageInspectWithRaw w (Name nb) = Inspected b2"
      "os_Open w' (filepath_Join (prevDir l') ''manifest.json'') = Inr bts2"
      "json_Unmarshal_manifest w' bts2 = Inr [m2]"
      "map (\<lambda>f. layer_digest w' (filepath_Join (prevDir l') f)) (drop (length m2 - length post) m2)
          = map Some ds"
      "layers_of l' = Layers (RootFS b2) @ ds"
    using Rebase_ok [of l pre t post w nb l' w'] by auto
  from a o have "b2 = b" "bts2 = bts" by simp_all
  with a o have "m2 = m" by simp
  with a o have "map Some ds = map Some post" by simp
  then have "ds = post" by (simp add: inj_map_eq_map)
  with o \<open>b2 = b\<close> show "layers_of l' = Layers (RootFS b) @ post" by simp
next
  assume "Image r = Some v \<and> v1_Layers v = Inr (vpre @ x # vpost) \<and> DiffID x = Inr t
      \<and> (\<forall>p \<in> set vpre. \<exists>d. DiffID p = Inr d \<and> d \<noteq> t)
      \<and> Image nbr = Some nv \<and> v1_Layers nv = Inr nls"
  then show "Rebase_remote t (Remote nbr) r
        = (Inr (), r\<lparr>Image := Some (v\<lparr>v1_Layers := Inr (nls @ vpost)\<rparr>)\<rparr>)"
    using Rebase_remote_ok [of r v vpre x vpost t nbr nv nls] by simp
qed

theorem Rebase_layers_witness:
  "Rebase (ex_world ex_exports) ''sha256:11'' (Local ex_base) ex_app
     = (Inr (), (set_layers [''sha256:c1'', ''sha256:22''] ex_app)
                  \<lparr>layerPaths := [[], ''/tmp/prev/l2/layer.tar''], easyAddLayers := [],
                    prevOnce := True, prevDir := ''/tmp/prev'',
                    prevMap := [''sha256:11'' \<mapsto> ''l1/layer.tar'', ''sha256:22'' \<mapsto> ''l2/layer.tar'']\<rparr>,
        ex_world_unpacked)
   \<and> layers_of ex_app = [''sha256:11'', ''sha256:22'']
   \<and> layers_of (fst (snd (Rebase (ex_world ex_exports) ''sha256:11'' (Local ex_base) ex_app)))
       = [''sha256:c1''] @ [''sha256:22'']
   \<and> Rebase_remote ''sha256:11'' (Remote (ex_remote (ex_cf []) [''sha256:c1'']))
         (ex_remote (ex_cf []) [''sha256:11'', ''sha256:22'', ''sha256:a1'', ''sha256:a2''])
       = (Inr (), ex_remote (ex_cf []) [''sha256:c1'', ''sha256:22'', ''sha256:a1'', ''sha256:a2''])"
proof -
  let ?w = "ex_world ex_exports"
  let ?l' = "(set_layers [''sha256:c1'', ''sha256:22''] ex_app)
                  \<lparr>layerPaths := [[], ''/tmp/prev/l2/layer.tar''], easyAddLayers := [],
                    prevOnce := True, prevDir := ''/tmp/prev'',
                    prevMap := [''sha256:11'' \<mapsto> ''l1/layer.tar'', ''sha256:22'' \<mapsto> ''l2/layer.tar'']\<rparr>"
  have i: "index_of (layers_of ex_app) ''sha256:11'' = Some 0" by (simp add: ex_app_fields)
  have k: "length (layers_of ex_app) - Suc 0 = Suc 0" by (simp add: ex_app_fields)
  have r: "Rebase ?w ''sha256:11'' (Local ex_base) ex_app = (Inr (), ?l', ex_world_unpacked)"
    unfolding ex_Rebase [OF ex_app_fields(1) ex_app_fields(2) i k]
    by (simp add: ex_Rebase_keep(2) set_layers_def layers_of_def)
  have la: "layers_of ex_app = [] @ ''sha256:11'' # [''sha256:22'']" by (simp add: ex_app_fields)
  have b: "ImageInspectWithRaw ?w (Name (Local ex_base)) = Inspected (ex_inspect [''sha256:c1''])"
    by (simp add: ex_world_def ex_images_def ex_base_def)
  have m: "os_Open ex_world_unpacked (filepath_Join (prevDir ?l') ''manifest.json'') = Inr ''M''"
    by (simp add: filepath_Join_def ex_unpacked_manifest)
  have d: "map (\<lambda>f. layer_digest ex_world_unpacked (filepath_Join (prevDir ?l') f))
             (drop (length [''l1/layer.tar'', ''l2/layer.tar''] - length [''sha256:22''])
                [''l1/layer.tar'', ''l2/layer.tar''])
           = map Some [''sha256:22'']"
    by (simp add: filepath_Join_def ex_digests)
  note T = Rebase_layers [where l = ex_app and pre = "[]" and t = "''sha256:11''"
      and post = "[''sha256:22'']" and w = ?w and nb = "Local ex_base" and l' = ?l'
      and w' = ex_world_unpacked and b = "ex_inspect [''sha256:c1'']" and bts = "''M''"
      and m = "[''l1/layer.tar'', ''l2/layer.tar'']"
      and r = "ex_remote (ex_cf []) [''sha256:11'', ''sha256:22'', ''sha256:a1'', ''sha256:a2'']"
      and v = "\<lparr>ConfigFile = ex_cf [], v1_Layers = Inr (map ex_layer [''sha256:11'', ''sha256:22'', ''sha256:a1'', ''sha256:a2''])\<rparr>"
      and vpre = "[]" and x = "ex_layer ''sha256:11''"
      and vpost = "map ex_layer [''sha256:22'', ''sha256:a1'', ''sha256:a2'']"
      and nbr = "ex_remote (ex_cf []) [''sha256:c1'']"
      and nv = "\<lparr>ConfigFile = ex_cf [], v1_Layers = Inr (map ex_layer [''sha256:c1''])\<rparr>"
      and nls = "map ex_layer [''sha256:c1'']"]
  from T la r b m d ex_unpacked_manifest(2)
  have c1: "layers_of ?l' = Layers (RootFS (ex_inspect [''sha256:c1''])) @ [''sha256:22'']"
    by simp
  from T
  have c2: "Rebase_remote ''sha256:11'' (Remote (ex_remote (ex_cf []) [''sha256:c1'']))
         (ex_remote (ex_cf []) [''sha256:11'', ''sha256:22'', ''sha256:a1'', ''sha256:a2''])
       = (Inr (), ex_remote (ex_cf []) [''sha256:c1'', ''sha256:22'', ''sha256:a1'', ''sha256:a2''])"
    by (simp add: ex_remote_def ex_layer_def)
  show ?thesis
    using r c1 c2 by (simp add: ex_app_fields ex_inspect_def)
qed

text \<open>
  \<open>ReuseLayer\<close> for a diff ID that is not in the previous image, in general. With no
  match of the fast-path hint, the previous image loaded without error and no layer of
  the diff ID in it: the local \<open>ReuseLayer\<close> fails with an error that names the diff ID
  and the image, the remote one with an error that names the diff ID, and the image's
  layers are as before (local: \<open>layers\<close> and \<open>layerPaths\<close>; remote: the \<open>Image\<close>).
\<close>

theorem ReuseLayer_not_found:
  "(\<not> (length (easyAddLayers l) > 0 \<and> hd (easyAddLayers l) = d)
      \<and> prevDownload w l = (None, l1, w1) \<and> prevMap l1 d = None \<longrightarrow>
        ReuseLayer w d l = (Inl (Err (''SHA '' @ d @ '' was not found in '' @ RepoName l)), l1, w1)
      \<and> names_str (''SHA '' @ d @ '' was not found in '' @ RepoName l) d
      \<and> names_str (''SHA '' @ d @ '' was not found in '' @ RepoName l) (RepoName l)
      \<and> layers_of l1 = layers_of l \<and> layerPaths l1 = layerPaths l)
   \<and> (ReuseLayer_once R r = (None, r1, R1)
      \<and> (\<forall>x \<in> set (PrevLayers r1). \<exists>d'. DiffID x = Inr d' \<and> d' \<noteq> d) \<longrightarrow>
        ReuseLayer_remote R d r
          = (Inl (Err (''previous image did not have layer with sha '' @ quoted d)), r1, R1)
      \<and> names_str (''previous image did not have layer with sha '' @ quoted d) d
      \<and> Image r1 = Image r)"
proof (intro conjI impI)
  assume a: "\<not> (length (easyAddLayers l) > 0 \<and> hd (easyAddLayers l) = d)
      \<and> prevDownload w l = (None, l1, w1) \<and> prevMap l1 d = None"
  then have p: "prevDownload w l = (None, l1, w1)" by simp
  have n: "RepoName l1 = RepoName l" using prevDownload_frame(1) [OF p] by simp
  show "ReuseLayer w d l = (Inl (Err (''SHA '' @ d @ '' was not found in '' @ RepoName l)), l1, w1)"
    using a ReuseLayer_slow [of l d w None l1 w1] n by simp
  show "names_str (''SHA '' @ d @ '' was not found in '' @ RepoName l) d"
    by (rule names_str_append)
  show "names_str (''SHA '' @ d @ '' was not found in '' @ RepoName l) (RepoName l)"
    using names_str_end [of "''SHA '' @ d @ '' was not found in ''" "RepoName l"] by simp
  show "layers_of l1 = layers_of l" using prevDownload_layers [OF p] .
  show "layerPaths l1 = layerPaths l" using prevDownload_frame(1) [OF p] by simp
next
  assume a: "ReuseLayer_once R r = (None, r1, R1)
      \<and> (\<forall>x \<in> set (PrevLayers r1). \<exists>d'. DiffID x = Inr d' \<and> d' \<noteq> d)"
  then show "ReuseLayer_remote R d r
          = (Inl (Err (''previous image did not have layer with sha '' @ quoted d)), r1, R1)"
    by (simp add: ReuseLayer_remote_def findLayerWithSha_absent)
  show "names_str (''previous image did not have layer with sha '' @ quoted d) d"
    using names_str_append [of "''previous image did not have layer with sha '' @ [CHR 0x27]" d "[CHR 0x27]"]
    by (simp add: quoted_def)
  show "Image r1 = Image r"
    using a
    by (auto simp: ReuseLayer_once_def ReuseLayer_fetch_def split: if_splits prod.splits sum.splits)
qed

theorem ReuseLayer_not_found_witness:
  "ReuseLayer (ex_world ex_exports) ''sha256:99'' ex_app
     = (Inl (Err ''SHA sha256:99 was not found in app''),
        ex_app\<lparr>prevOnce := True, prevDir := ''/tmp/prev'',
          prevMap := [''sha256:11'' \<mapsto> ''l1/layer.tar'', ''sha256:22'' \<mapsto> ''l2/layer.tar'']\<rparr>,
        ex_world_unpacked)
   \<and> names_str ''SHA sha256:99 was not found in app'' ''sha256:99''
   \<and> names_str ''SHA sha256:99 was not found in app'' ''app''
   \<and> fst (ReuseLayer_remote ex_registry ''sha256:99'' (ex_remote (ex_cf []) [''sha256:11'', ''sha256:22'']))
       = Inl (Err (''previous image did not have layer with sha '' @ quoted ''sha256:99''))
   \<and> Image (fst (snd (ReuseLayer_remote ex_registry ''sha256:99'' (ex_remote (ex_cf []) [''sha256:11'', ''sha256:22'']))))
       = Image (ex_remote (ex_cf []) [''sha256:11'', ''sha256:22''])"
proof -
  let ?l1 = "ex_app\<lparr>prevOnce := True, prevDir := ''/tmp/prev'',
          prevMap := [''sha256:11'' \<mapsto> ''l1/layer.tar'', ''sha256:22'' \<mapsto> ''l2/layer.tar'']\<rparr>"
  let ?r = "ex_remote (ex_cf []) [''sha256:11'', ''sha256:22'']"
  have pd: "prevDownload (ex_world ex_exports) ex_app = (None, ?l1, ex_world_unpacked)"
    using ex_prevDownload [of ex_app] by (simp add: ex_app_def)
  have hint: "\<not> (length (easyAddLayers ex_app) > 0 \<and> hd (easyAddLayers ex_app) = ''sha256:99'')"
    by (simp add: ex_app_def)
  have absent: "prevMap ?l1 ''sha256:99'' = None" by simp
  have name: "RepoName ex_app = ''app''" by (simp add: ex_app_def)
  have once: "ReuseLayer_once ex_registry ?r
      = (None, fst (snd (ReuseLayer_once ex_registry ?r)), snd (snd (ReuseLayer_once ex_registry ?r)))"
    by (simp add: ReuseLayer_once_def ReuseLayer_fetch_def newV1Image_def ex_registry_def ex_remote_def)
  have prev: "\<forall>x \<in> set (PrevLayers (fst (snd (ReuseLayer_once ex_registry ?r)))).
                \<exists>d'. DiffID x = Inr d' \<and> d' \<noteq> ''sha256:99''"
    by (simp add: ReuseLayer_once_def ReuseLayer_fetch_def newV1Image_def ex_registry_def
        ex_remote_def ex_layer_def)
  note T = ReuseLayer_not_found [where l = ex_app and d = "''sha256:99''" and w = "ex_world ex_exports"
        and ?l1.0 = ?l1 and ?w1.0 = ex_world_unpacked and R = ex_registry and r = ?r
        and ?r1.0 = "fst (snd (ReuseLayer_once ex_registry ?r))"
        and ?R1.0 = "snd (snd (ReuseLayer_once ex_registry ?r))"]
  from T pd hint absent
  have L: "ReuseLayer (ex_world ex_exports) ''sha256:99'' ex_app
             = (Inl (Err (''SHA '' @ ''sha256:99'' @ '' was not found in '' @ RepoName ex_app)), ?l1, ex_world_unpacked)
           \<and> names_str (''SHA '' @ ''sha256:99'' @ '' was not found in '' @ RepoName ex_app) ''sha256:99''
           \<and> names_str (''SHA '' @ ''sha256:99'' @ '' was not found in '' @ RepoName ex_app) (RepoName ex_app)"
    by blast
  from T once prev
  have Rm: "ReuseLayer_remote ex_registry ''sha256:99'' ?r
             = (Inl (Err (''previous image did not have layer with sha '' @ quoted ''sha256:99'')),
                fst (snd (ReuseLayer_once ex_registry ?r)), snd (snd (ReuseLayer_once ex_registry ?r)))
           \<and> Image (fst (snd (ReuseLayer_once ex_registry ?r))) = Image ?r"
    by blast
  show ?thesis
    using L Rm by (simp add: name)
qed

end
